theory Spec2Isabelle
  imports Main
begin

section \<open>Values of the configuration Variable\<close>

text \<open>
  The operator reads one Airflow Variable, deserialized from JSON, and only ever does
  four things with the values it finds in an organization's config: it compares with
  \<^verbatim>\<open>is False\<close>, it tests membership in a tuple of strings, it tests
  \<^verbatim>\<open>isinstance(_, str)\<close>, and it formats with \<^verbatim>\<open>'{0}_{1}'.format\<close>.
  A field value is therefore \<open>None\<close>, a bool, an int, a str, or any other value
  (a float, a list, a dict), which is carried as the text Python's \<open>str()\<close>
  gives for it.
\<close>

datatype pyval = PNone | PBool bool | PInt int | PStr string | POther string

text \<open>
  The value stored under a key of the Variable: a dict of fields, or anything else
  (on which \<^verbatim>\<open>org_config.get\<close> raises AttributeError).
\<close>

datatype entry = Dict "(string \<times> pyval) list" | NotDict

type_synonym config = "(string \<times> entry) list"

text \<open>The exceptions that can leave \<open>execute\<close>.\<close>

datatype exn =
    AirflowException      \<comment> \<open>BaseHook.get_connection: the conn_id is not defined\<close>
  | InvalidToken          \<comment> \<open>Fernet.decrypt: bad ciphertext or wrong key\<close>
  | TypeError
  | ValueError
  | UnicodeDecodeError
  | AttributeError
  | KeyError
  | SQLAlchemyError       \<comment> \<open>the session could not delete, add or commit\<close>

text \<open>\<^verbatim>\<open>dict.get(key, default)\<close>\<close>

definition dict_get :: "(string \<times> 'v) list \<Rightarrow> string \<Rightarrow> 'v \<Rightarrow> 'v" where
  "dict_get d k dflt = (case map_of d k of None \<Rightarrow> dflt | Some v \<Rightarrow> v)"

text \<open>\<^verbatim>\<open>str(n)\<close> for an int, in decimal.\<close>

definition digit_char :: "nat \<Rightarrow> char" where
  "digit_char d = ''0123456789'' ! d"

fun str_nat :: "nat \<Rightarrow> string" where
  "str_nat n = (if n < 10 then [digit_char n] else str_nat (n div 10) @ [digit_char (n mod 10)])"

declare str_nat.simps [simp del]

definition str_int :: "int \<Rightarrow> string" where
  "str_int i = (if i < 0 then CHR ''-'' # str_nat (nat (- i)) else str_nat (nat i))"

text \<open>What \<^verbatim>\<open>'{}'.format(v)\<close> puts in place of the field: \<open>str(v)\<close>.\<close>

fun py_str :: "pyval \<Rightarrow> string" where
  "py_str PNone = ''None''"
| "py_str (PBool b) = (if b then ''True'' else ''False'')"
| "py_str (PInt i) = str_int i"
| "py_str (PStr s) = s"
| "py_str (POther s) = s"

text \<open>\<^verbatim>\<open>'{0}_{1}'.format(a, b)\<close>\<close>

definition format_0_1 :: "string \<Rightarrow> pyval \<Rightarrow> string" where
  "format_0_1 a b = a @ ''_'' @ py_str b"

section \<open>Connections, the session and the world outside\<close>

text \<open>
  A row of Airflow's connection table, with the columns the operator sets.
\<close>

record connection =
  conn_id :: string
  conn_type :: "string option"
  host :: "string option"
  password :: "string option"
  extra :: "string option"

text \<open>The calls \<open>execute\<close> makes to its collaborators, in order.\<close>

datatype call =
    GetConnection "string option"
  | VariableGet string
  | DecryptStr "string option" string
  | MergeConnection connection

text \<open>
  The state a run acts on: the rows of the connection table, the outcome of each of the
  coming session transactions (\<open>True\<close>: the transaction raises and nothing is committed;
  when the list is used up every transaction commits), and the calls made so far.
\<close>

record world =
  rows :: "connection list"
  faults :: "bool list"
  calls :: "call list"

text \<open>
  The collaborators that are not part of this repository:
  \<^item> \<open>get_connection\<close> is \<^verbatim>\<open>BaseHook.get_connection\<close>, which reads the environment
    and the connection table and raises when it finds nothing;
  \<^item> \<open>variables\<close> gives, for the name of a stored Variable, what
    \<^verbatim>\<open>json.loads\<close> makes of its text;
  \<^item> \<open>fernet_decrypt\<close> is \<^verbatim>\<open>bytes.decode(Fernet(key).decrypt(str.encode(s)))\<close>
    for a key that is a string.
\<close>

record env =
  get_connection :: "connection list \<Rightarrow> string option \<Rightarrow> exn + connection"
  variables :: "string \<Rightarrow> (exn + config) option"
  fernet_decrypt :: "string \<Rightarrow> string \<Rightarrow> exn + string"

text \<open>\<^verbatim>\<open>Variable.get(key, default_var=..., deserialize_json=True)\<close>\<close>

definition Variable_get :: "env \<Rightarrow> string \<Rightarrow> config \<Rightarrow> exn + config" where
  "Variable_get e key default_var =
     (case variables e key of None \<Rightarrow> Inr default_var | Some r \<Rightarrow> r)"

section \<open>The operator\<close>

record operator =
  fernet_key_conn_id :: "string option"
  config_variable_key :: string

text \<open>\<^verbatim>\<open>__init__\<close>: \<open>is_encrypted\<close> is accepted and not stored.\<close>

definition init :: "string \<Rightarrow> string option \<Rightarrow> bool \<Rightarrow> operator" where
  "init config_variable_key' fernet_key_conn_id' is_encrypted =
     \<lparr>fernet_key_conn_id = fernet_key_conn_id', config_variable_key = config_variable_key'\<rparr>"

text \<open>
  \<^verbatim>\<open>decrypt_str\<close>. \<^verbatim>\<open>Fernet(None)\<close> raises TypeError (the key is
  base64-decoded first).
\<close>

definition decrypt_str :: "env \<Rightarrow> string option \<Rightarrow> string \<Rightarrow> world \<Rightarrow> (exn + string) \<times> world" where
  "decrypt_str e fernet_key encrypted_str w =
     (case fernet_key of
        None \<Rightarrow> Inl TypeError
      | Some k \<Rightarrow> fernet_decrypt e k encrypted_str,
      w\<lparr>calls := calls w @ [DecryptStr fernet_key encrypted_str]\<rparr>)"

text \<open>
  \<^verbatim>\<open>merge_connection\<close>, in a session of its own: delete the rows with the
  connection's conn_id, add the connection, commit. When the transaction raises, the
  table keeps the rows it had.
\<close>

definition merge_connection :: "connection \<Rightarrow> world \<Rightarrow> (exn + unit) \<times> world" where
  "merge_connection c w =
     (let w' = w\<lparr>faults := tl (faults w), calls := calls w @ [MergeConnection c]\<rparr>
      in if faults w \<noteq> [] \<and> hd (faults w)
         then (Inl SQLAlchemyError, w')
         else (Inr (), w'\<lparr>rows := filter (\<lambda>r. conn_id r \<noteq> conn_id c) (rows w) @ [c]\<rparr>))"

definition enabled_types :: "pyval list" where
  "enabled_types = [PStr ''GOOGLE_ANALYTICS'', PStr ''HUBSPOT'', PStr ''SALESFORCE'']"

text \<open>
  The body of the \<^verbatim>\<open>for\<close> loop of \<open>execute\<close>, for one key of the Variable.
  \<open>Inr ()\<close> is the end of the iteration (by \<^verbatim>\<open>continue\<close> or at the end of the
  body), \<open>Inl\<close> an exception.

  \<^verbatim>\<open>Connection(conn_id=..., conn_type=..., host=..., password=..., extra=...)\<close> is
  Airflow's model class. It stores conn_id, conn_type and host as they are given; the
  password goes through the setter \<^verbatim>\<open>set_password\<close>, which begins with
  \<^verbatim>\<open>if value:\<close> and so leaves the column empty (None) when the password given is
  the empty string. The extra given here is never empty.
\<close>

definition loop_body :: "env \<Rightarrow> connection \<Rightarrow> config \<Rightarrow> string \<Rightarrow> world \<Rightarrow> (exn + unit) \<times> world" where
  \<open>loop_body e secret_key_conn dag_config_var config_key w =
     (case map_of dag_config_var config_key of
        None \<Rightarrow> (Inl KeyError, w)
      | Some NotDict \<Rightarrow> (Inl AttributeError, w)
      | Some (Dict org_config) \<Rightarrow>
          (let v_is_enabled = dict_get org_config ''is_enabled'' (PBool False);
               v_organization_name = dict_get org_config ''organization'' PNone;
               v_type = dict_get org_config ''type'' PNone;
               v_token = dict_get org_config ''token'' PNone;
               v_instance_url = dict_get org_config ''instance_url'' PNone
           in if v_is_enabled = PBool False then (Inr (), w)
              else if v_type \<notin> set enabled_types then (Inr (), w)
              else (case v_token of
                PStr token_str \<Rightarrow>
                  (case v_instance_url of
                     PStr instance_url_str \<Rightarrow>
                       (case decrypt_str e (password secret_key_conn) token_str w of
                          (Inl err, w') \<Rightarrow> (Inl err, w')
                        | (Inr access_token, w') \<Rightarrow>
                            (let (conn_prefix, instance_url') =
                                   (if v_type = PStr ''SALESFORCE'' then (''sf'', instance_url_str)
                                    else if v_type = PStr ''HUBSPOT'' then (''hs'', ''https://api.hubapi.com/'')
                                    else if v_type = PStr ''GOOGLE_ANALYTICS'' then (''ga'', instance_url_str)
                                    else ('''', instance_url_str));
                                 organization_connection =
                                   \<lparr>conn_id = format_0_1 conn_prefix v_organization_name,
                                    conn_type = Some ''http'',
                                    host = Some instance_url',
                                    password = (if access_token = [] then None else Some access_token),
                                    extra = Some ''{"auth_type": "direct"}''\<rparr>
                             in merge_connection organization_connection w'))
                   | _ \<Rightarrow> (Inr (), w))
              | _ \<Rightarrow> (Inr (), w))))\<close>

text \<open>The \<^verbatim>\<open>for\<close> loop over the keys: an exception ends it.\<close>

fun for_loop :: "env \<Rightarrow> connection \<Rightarrow> config \<Rightarrow> string list \<Rightarrow> world \<Rightarrow> (exn + unit) \<times> world" where
  "for_loop e secret_key_conn dag_config_var [] w = (Inr (), w)"
| "for_loop e secret_key_conn dag_config_var (config_key # keys) w =
     (case loop_body e secret_key_conn dag_config_var config_key w of
        (Inl err, w') \<Rightarrow> (Inl err, w')
      | (Inr u, w') \<Rightarrow> for_loop e secret_key_conn dag_config_var keys w')"

text \<open>\<^verbatim>\<open>execute\<close>\<close>

definition execute :: "env \<Rightarrow> operator \<Rightarrow> world \<Rightarrow> (exn + unit) \<times> world" where
  "execute e self w =
     (let w1 = w\<lparr>calls := calls w @ [GetConnection (fernet_key_conn_id self)]\<rparr>
      in case get_connection e (rows w) (fernet_key_conn_id self) of
           Inl err \<Rightarrow> (Inl err, w1)
         | Inr secret_key_conn \<Rightarrow>
             (let w2 = w1\<lparr>calls := calls w1 @ [VariableGet (config_variable_key self)]\<rparr>
              in case Variable_get e (config_variable_key self) [] of
                   Inl err \<Rightarrow> (Inl err, w2)
                 | Inr dag_config_var \<Rightarrow>
                     for_loop e secret_key_conn dag_config_var (map fst dag_config_var) w2))"

section \<open>An example world\<close>

text \<open>
  A concrete environment for the scenarios: the Fernet key \<open>K\<close> is the password of the
  connection \<open>fernet_key\<close> of the table, the Variable \<open>dag_config\<close> holds the given
  config (or does not exist), and three ciphertexts decrypt under \<open>K\<close>, the last of
  them to the empty string.
\<close>

definition example_key_conn :: connection where
  "example_key_conn =
     \<lparr>conn_id = ''fernet_key'', conn_type = None, host = None, password = Some ''K'', extra = None\<rparr>"

definition example_get_connection :: "connection list \<Rightarrow> string option \<Rightarrow> exn + connection" where
  "example_get_connection rs cid =
     (case cid of
        None \<Rightarrow> Inl AirflowException
      | Some c \<Rightarrow> (case filter (\<lambda>r. conn_id r = c) rs of [] \<Rightarrow> Inl AirflowException | r # _ \<Rightarrow> Inr r))"

definition example_fernet :: "string \<Rightarrow> string \<Rightarrow> exn + string" where
  "example_fernet k s =
     (if k = ''K'' \<and> s = ''gAAAAA_tok123'' then Inr ''tok123''
      else if k = ''K'' \<and> s = ''gAAAAA_tok456'' then Inr ''tok456''
      else if k = ''K'' \<and> s = ''gAAAAA_empty'' then Inr []
      else Inl InvalidToken)"

definition example_env :: "config option \<Rightarrow> env" where
  "example_env stored =
     \<lparr>get_connection = example_get_connection,
      variables = (\<lambda>key. if key = ''dag_config'' then map_option Inr stored else None),
      fernet_decrypt = example_fernet\<rparr>"

definition example_op :: operator where
  "example_op = init ''dag_config'' (Some ''fernet_key'') True"

definition example_world :: "bool list \<Rightarrow> world" where
  "example_world fs = \<lparr>rows = [example_key_conn], faults = fs, calls = []\<rparr>"

definition org_fields :: "pyval \<Rightarrow> string \<Rightarrow> string \<Rightarrow> pyval \<Rightarrow> string \<Rightarrow> (string \<times> pyval) list" where
  "org_fields enabled org ty tok url =
     [(''is_enabled'', enabled), (''organization'', PStr org), (''type'', PStr ty),
      (''token'', tok), (''instance_url'', PStr url)]"

definition acme_salesforce :: config where
  "acme_salesforce =
     [(''acme'', Dict (org_fields (PBool True) ''acme'' ''SALESFORCE'' (PStr ''gAAAAA_tok123'')
                         ''https://acme.my.salesforce.com''))]"

definition acme_hubspot :: config where
  "acme_hubspot =
     [(''acme'', Dict (org_fields (PBool True) ''acme'' ''HUBSPOT'' (PStr ''gAAAAA_tok123'')
                         ''https://ignored.example''))]"

definition acme_with :: "pyval \<Rightarrow> pyval \<Rightarrow> config" where
  "acme_with enabled tok =
     [(''acme'', Dict (org_fields enabled ''acme'' ''SALESFORCE'' tok
                         ''https://acme.my.salesforce.com''))]"

definition no_organization_fields :: "(string \<times> pyval) list" where
  "no_organization_fields =
     [(''is_enabled'', PBool True), (''type'', PStr ''SALESFORCE''),
      (''token'', PStr ''gAAAAA_tok123''),
      (''instance_url'', PStr ''https://acme.my.salesforce.com'')]"

definition acme_no_organization :: config where
  "acme_no_organization = [(''acme'', Dict no_organization_fields)]"

definition three_orgs :: "string \<Rightarrow> config" where
  "three_orgs second_token =
     [(''acme'', Dict (org_fields (PBool True) ''acme'' ''SALESFORCE'' (PStr ''gAAAAA_tok123'')
                         ''https://acme.my.salesforce.com'')),
      (''initech'', Dict (org_fields (PBool True) ''initech'' ''GOOGLE_ANALYTICS''
                         (PStr second_token) ''https://analytics.example'')),
      (''globex'', Dict (org_fields (PBool True) ''globex'' ''HUBSPOT'' (PStr ''gAAAAA_tok456'')
                         ''https://ignored.example''))]"

definition key_conn_no_password :: connection where
  "key_conn_no_password =
     \<lparr>conn_id = ''fernet_key'', conn_type = None, host = None, password = None, extra = None\<rparr>"

definition numbered_fields :: "(string \<times> pyval) list" where
  "numbered_fields =
     [(''is_enabled'', PBool True), (''organization'', PInt 42),
      (''type'', PStr ''GOOGLE_ANALYTICS''), (''token'', PStr ''gAAAAA_tok123''),
      (''instance_url'', PStr ''https://analytics.example'')]"

definition acme_numbered :: config where
  "acme_numbered = [(''acme'', Dict numbered_fields)]"

text \<open>
  What it is for a text to be the decimal numeral of a number, said without
  \<open>str_nat\<close>: the text is not empty, has digits only, has no leading zero unless it is
  \<open>0\<close> itself, and its value, read digit by digit, is the number. For an int a minus
  sign comes first when it is negative.
\<close>

definition digit_value :: "char \<Rightarrow> nat" where
  "digit_value c = of_char c - 48"

definition decimal_value :: "string \<Rightarrow> nat" where
  "decimal_value t = foldl (\<lambda>a c. 10 * a + digit_value c) 0 t"

definition is_decimal :: "string \<Rightarrow> nat \<Rightarrow> bool" where
  "is_decimal t n \<longleftrightarrow>
     t \<noteq> [] \<and> set t \<subseteq> set ''0123456789'' \<and> (hd t = CHR ''0'' \<longrightarrow> t = ''0'')
     \<and> decimal_value t = n"

definition is_int_text :: "string \<Rightarrow> int \<Rightarrow> bool" where
  "is_int_text t i \<longleftrightarrow>
     (if i < 0 then t \<noteq> [] \<and> hd t = CHR ''-'' \<and> is_decimal (tl t) (nat (- i))
      else is_decimal t (nat i))"

text \<open>A sequence of runs, each with its own environment and operator, failed or not.\<close>

fun runs :: "(env \<times> operator) list \<Rightarrow> world \<Rightarrow> world" where
  "runs [] w = w"
| "runs ((e, self) # rs) w = runs rs (snd (execute e self w))"

section \<open>Facts about the loop\<close>

lemmas example_defs =
  example_env_def example_op_def init_def example_world_def example_get_connection_def
  example_key_conn_def example_fernet_def org_fields_def acme_salesforce_def acme_hubspot_def
  acme_with_def no_organization_fields_def acme_no_organization_def three_orgs_def
  key_conn_no_password_def numbered_fields_def acme_numbered_def

lemmas run_defs =
  execute_def Variable_get_def loop_body_def dict_get_def enabled_types_def decrypt_str_def
  merge_connection_def format_0_1_def

lemma loop_body_accepted:
  assumes \<open>map_of cfg k = Some (Dict d)\<close>
    and \<open>dict_get d ''is_enabled'' (PBool False) \<noteq> PBool False\<close>
    and \<open>dict_get d ''type'' PNone = PStr ty\<close>
    and \<open>dict_get d ''token'' PNone = PStr tok\<close>
    and \<open>dict_get d ''instance_url'' PNone = PStr url\<close>
    and \<open>(ty, prefix, h) \<in> {(''SALESFORCE'', ''sf'', url),
                            (''HUBSPOT'', ''hs'', ''https://api.hubapi.com/''),
                            (''GOOGLE_ANALYTICS'', ''ga'', url)}\<close>
  shows \<open>loop_body e kc cfg k w =
     (case decrypt_str e (password kc) tok w of
        (Inl err, w') \<Rightarrow> (Inl err, w')
      | (Inr access_token, w') \<Rightarrow>
          merge_connection
            \<lparr>conn_id = prefix @ ''_'' @ py_str (dict_get d ''organization'' PNone),
             conn_type = Some ''http'', host = Some h, password = (if access_token = [] then None else Some access_token),
             extra = Some ''{"auth_type": "direct"}''\<rparr> w')\<close>
  using assms
  by (auto simp: loop_body_def enabled_types_def format_0_1_def decrypt_str_def
      split: sum.splits prod.splits)

lemma loop_body_disabled:
  assumes "map_of cfg k = Some (Dict d)"
    and "dict_get d ''is_enabled'' (PBool False) = PBool False"
  shows "loop_body e kc cfg k w = (Inr (), w)"
  using assms by (simp add: loop_body_def)

lemma loop_body_bad_type:
  assumes "map_of cfg k = Some (Dict d)"
    and "dict_get d ''type'' PNone \<notin> set enabled_types"
  shows "loop_body e kc cfg k w = (Inr (), w)"
  using assms by (simp add: loop_body_def Let_def)

lemma loop_body_bad_token:
  assumes "map_of cfg k = Some (Dict d)"
    and "\<forall>s. dict_get d ''token'' PNone \<noteq> PStr s"
  shows "loop_body e kc cfg k w = (Inr (), w)"
  using assms by (simp add: loop_body_def Let_def split: pyval.splits)

lemma loop_body_bad_url:
  assumes "map_of cfg k = Some (Dict d)"
    and "\<forall>s. dict_get d ''instance_url'' PNone \<noteq> PStr s"
  shows "loop_body e kc cfg k w = (Inr (), w)"
  using assms by (simp add: loop_body_def Let_def split: pyval.splits)

lemma for_loop_append:
  "for_loop e kc cfg (xs @ ys) w =
     (case for_loop e kc cfg xs w of
        (Inl err, w') \<Rightarrow> (Inl err, w')
      | (Inr u, w') \<Rightarrow> for_loop e kc cfg ys w')"
  by (induction xs arbitrary: w) (auto split: prod.splits sum.splits)

lemma for_loop_skip_key:
  assumes "\<And>w. loop_body e kc cfg k w = (Inr (), w)"
  shows "for_loop e kc cfg (pre @ k # post) w = for_loop e kc cfg (pre @ post) w"
  by (simp add: for_loop_append assms split: prod.splits sum.splits)

lemma example_env_simps [simp]:
  "get_connection (example_env s) = example_get_connection"
  "variables (example_env s) ''dag_config'' = map_option Inr s"
  "fernet_decrypt (example_env s) = example_fernet"
  by (simp_all add: example_env_def)

lemma example_op_simps [simp]:
  "fernet_key_conn_id example_op = Some ''fernet_key''"
  "config_variable_key example_op = ''dag_config''"
  by (simp_all add: example_op_def init_def)

lemma example_get_connection_key [simp]:
  "example_get_connection (example_key_conn # rs) (Some ''fernet_key'') = Inr example_key_conn"
  by (simp add: example_get_connection_def example_key_conn_def)

lemma example_key_conn_simps [simp]:
  "conn_id example_key_conn = ''fernet_key''"
  "password example_key_conn = Some ''K''"
  by (simp_all add: example_key_conn_def)

section \<open>Disabled entries\<close>

text \<open>
  C2 (as amended). An entry whose \<open>is_enabled\<close> field is missing or is exactly the
  boolean false is skipped with no side effect: the iteration for its key ends normally
  and leaves the connection table, the pending transactions and the calls made as they
  were, so the run goes on as if the key were not in the Variable. (The test in the code
  is \<^verbatim>\<open>_is_enabled is False\<close>; any other value, true or not a boolean at all,
  lets the entry through to the checks that follow.)
\<close>

theorem disabled_entry_skipped:
  assumes "map_of cfg k = Some (Dict d)"
    and "map_of d ''is_enabled'' = None \<or> map_of d ''is_enabled'' = Some (PBool False)"
  shows "loop_body e kc cfg k w = (Inr (), w) \<and>
         for_loop e kc cfg (pre @ k # post) w = for_loop e kc cfg (pre @ post) w"
proof -
  from assms(2) have "dict_get d ''is_enabled'' (PBool False) = PBool False"
    by (auto simp: dict_get_def)
  with assms(1) have skip: "loop_body e kc cfg k w' = (Inr (), w')" for w'
    by (rule loop_body_disabled)
  then show ?thesis
    by (simp add: for_loop_skip_key)
qed

text \<open>A disabled \<open>acme\<close> entry: the run only looks up the key and the Variable.\<close>

theorem disabled_entry_skipped_witness:
  "map_of (acme_with (PBool False) (PStr ''gAAAAA_tok123'')) ''acme''
     = Some (Dict (org_fields (PBool False) ''acme'' ''SALESFORCE'' (PStr ''gAAAAA_tok123'')
                     ''https://acme.my.salesforce.com''))
   \<and> map_of (org_fields (PBool False) ''acme'' ''SALESFORCE'' (PStr ''gAAAAA_tok123'')
               ''https://acme.my.salesforce.com'') ''is_enabled'' = Some (PBool False)
   \<and> execute (example_env (Some (acme_with (PBool False) (PStr ''gAAAAA_tok123'')))) example_op
        (example_world [])
     = (Inr (), \<lparr>rows = [example_key_conn], faults = [],
                 calls = [GetConnection (Some ''fernet_key''), VariableGet ''dag_config'']\<rparr>)"
proof -
  let ?cfg = "acme_with (PBool False) (PStr ''gAAAAA_tok123'')"
  let ?d = "org_fields (PBool False) ''acme'' ''SALESFORCE'' (PStr ''gAAAAA_tok123'')
              ''https://acme.my.salesforce.com''"
  have h1: "map_of ?cfg ''acme'' = Some (Dict ?d)"
    by (simp add: acme_with_def)
  have h2: "map_of ?d ''is_enabled'' = Some (PBool False)"
    by (simp add: org_fields_def)
  have keys: "map fst ?cfg = [''acme'']"
    by (simp add: acme_with_def)
  have skip: "loop_body e kc ?cfg ''acme'' w = (Inr (), w)" for e kc w
    using disabled_entry_skipped [OF h1 disjI2 [OF h2]] by simp
  have "execute (example_env (Some ?cfg)) example_op (example_world [])
     = (Inr (), \<lparr>rows = [example_key_conn], faults = [],
                 calls = [GetConnection (Some ''fernet_key''), VariableGet ''dag_config'']\<rparr>)"
    by (simp add: execute_def Variable_get_def example_world_def keys skip)
  with h1 h2 show ?thesis by simp
qed

text \<open>
  With \<open>is_enabled\<close> the number 1, or the string \<open>yes\<close>, the entry is not skipped: its
  connection is created.
\<close>

theorem truthy_is_enabled_counterexample:
  \<open>rows (snd (execute (example_env (Some (acme_with (PInt 1) (PStr ''gAAAAA_tok123''))))
                example_op (example_world [])))
     = [example_key_conn,
        \<lparr>conn_id = ''sf_acme'', conn_type = Some ''http'',
         host = Some ''https://acme.my.salesforce.com'', password = Some ''tok123'',
         extra = Some ''{"auth_type": "direct"}''\<rparr>]
   \<and> rows (snd (execute (example_env (Some (acme_with (PStr ''yes'') (PStr ''gAAAAA_tok123''))))
                example_op (example_world [])))
     = [example_key_conn,
        \<lparr>conn_id = ''sf_acme'', conn_type = Some ''http'',
         host = Some ''https://acme.my.salesforce.com'', password = Some ''tok123'',
         extra = Some ''{"auth_type": "direct"}''\<rparr>]\<close>
  by (simp add: example_defs run_defs Let_def)

section \<open>Entries that fail a field check\<close>

text \<open>
  C3. An entry whose \<open>type\<close> is not one of \<open>GOOGLE_ANALYTICS\<close>, \<open>HUBSPOT\<close>,
  \<open>SALESFORCE\<close>, or whose \<open>token\<close> is not a string, or whose \<open>instance_url\<close> is not a
  string, is skipped silently, whatever its \<open>is_enabled\<close>: the iteration for its key ends
  normally (no exception) and leaves the world as it was, with no row produced and no
  call to \<open>decrypt_str\<close> recorded, in every environment; the run goes on as if the key
  were not in the Variable.
\<close>

theorem invalid_entry_skipped:
  assumes "map_of cfg k = Some (Dict d)"
    and "dict_get d ''type'' PNone
           \<notin> {PStr ''GOOGLE_ANALYTICS'', PStr ''HUBSPOT'', PStr ''SALESFORCE''}
         \<or> (\<forall>s. dict_get d ''token'' PNone \<noteq> PStr s)
         \<or> (\<forall>s. dict_get d ''instance_url'' PNone \<noteq> PStr s)"
  shows "loop_body e kc cfg k w = (Inr (), w) \<and>
         for_loop e kc cfg (pre @ k # post) w = for_loop e kc cfg (pre @ post) w"
proof -
  have skip: "loop_body e kc cfg k w' = (Inr (), w')" for w'
    using assms(2)
  proof (elim disjE)
    assume "dict_get d ''type'' PNone
              \<notin> {PStr ''GOOGLE_ANALYTICS'', PStr ''HUBSPOT'', PStr ''SALESFORCE''}"
    then have "dict_get d ''type'' PNone \<notin> set enabled_types"
      by (simp add: enabled_types_def)
    with assms(1) show ?thesis by (rule loop_body_bad_type)
  next
    assume "\<forall>s. dict_get d ''token'' PNone \<noteq> PStr s"
    with assms(1) show ?thesis by (rule loop_body_bad_token)
  next
    assume "\<forall>s. dict_get d ''instance_url'' PNone \<noteq> PStr s"
    with assms(1) show ?thesis by (rule loop_body_bad_url)
  qed
  then show ?thesis
    by (simp add: for_loop_skip_key)
qed

text \<open>The token is a number: the entry is skipped, nothing is decrypted, the run succeeds.\<close>

theorem invalid_entry_skipped_witness:
  "map_of (acme_with (PBool True) (PInt 12345)) ''acme''
     = Some (Dict (org_fields (PBool True) ''acme'' ''SALESFORCE'' (PInt 12345)
                     ''https://acme.my.salesforce.com''))
   \<and> dict_get (org_fields (PBool True) ''acme'' ''SALESFORCE'' (PInt 12345)
                 ''https://acme.my.salesforce.com'') ''token'' PNone = PInt 12345
   \<and> execute (example_env (Some (acme_with (PBool True) (PInt 12345)))) example_op
        (example_world [])
     = (Inr (), \<lparr>rows = [example_key_conn], faults = [],
                 calls = [GetConnection (Some ''fernet_key''), VariableGet ''dag_config'']\<rparr>)"
proof -
  let ?cfg = "acme_with (PBool True) (PInt 12345)"
  let ?d = "org_fields (PBool True) ''acme'' ''SALESFORCE'' (PInt 12345)
              ''https://acme.my.salesforce.com''"
  have h1: "map_of ?cfg ''acme'' = Some (Dict ?d)"
    by (simp add: acme_with_def)
  have h2: "dict_get ?d ''token'' PNone = PInt 12345"
    by (simp add: org_fields_def dict_get_def)
  then have h3: "\<forall>s. dict_get ?d ''token'' PNone \<noteq> PStr s"
    by simp
  have keys: "map fst ?cfg = [''acme'']"
    by (simp add: acme_with_def)
  have skip: "loop_body e kc ?cfg ''acme'' w = (Inr (), w)" for e kc w
    using invalid_entry_skipped [OF h1 disjI2 [OF disjI1 [OF h3]]] by simp
  have "execute (example_env (Some ?cfg)) example_op (example_world [])
     = (Inr (), \<lparr>rows = [example_key_conn], faults = [],
                 calls = [GetConnection (Some ''fernet_key''), VariableGet ''dag_config'']\<rparr>)"
    by (simp add: execute_def Variable_get_def example_world_def keys skip)
  with h1 h2 show ?thesis by simp
qed

section \<open>The connection built for an accepted entry\<close>

text \<open>
  C4. For an entry that passes the checks (\<open>is_enabled\<close> is not false, in particular
  when it is true; \<open>token\<close> and \<open>instance_url\<close> are strings) with type \<open>HUBSPOT\<close>, and
  whose token decrypts, the connection handed to \<open>merge_connection\<close> has the conn_id
  \<open>hs_\<close> followed by the organization and the host \<open>https://api.hubapi.com/\<close>, whatever
  the entry's \<open>instance_url\<close> is.
\<close>

theorem hubspot_host_overridden:
  assumes \<open>map_of cfg k = Some (Dict d)\<close>
    and \<open>dict_get d ''is_enabled'' (PBool False) \<noteq> PBool False\<close>
    and \<open>dict_get d ''type'' PNone = PStr ''HUBSPOT''\<close>
    and \<open>dict_get d ''token'' PNone = PStr tok\<close>
    and \<open>dict_get d ''instance_url'' PNone = PStr url\<close>
    and \<open>password kc = Some key\<close>
    and \<open>fernet_decrypt e key tok = Inr plain\<close>
  shows \<open>loop_body e kc cfg k w =
           merge_connection
             \<lparr>conn_id = ''hs_'' @ py_str (dict_get d ''organization'' PNone),
              conn_type = Some ''http'', host = Some ''https://api.hubapi.com/'',
              password = (if plain = [] then None else Some plain), extra = Some ''{"auth_type": "direct"}''\<rparr>
             (w\<lparr>calls := calls w @ [DecryptStr (Some key) tok]\<rparr>)\<close>
proof -
  have \<open>(''HUBSPOT'', ''hs'', ''https://api.hubapi.com/'')
          \<in> {(''SALESFORCE'', ''sf'', url),
              (''HUBSPOT'', ''hs'', ''https://api.hubapi.com/''),
              (''GOOGLE_ANALYTICS'', ''ga'', url)}\<close>
    by simp
  from loop_body_accepted [OF assms(1-5) this, of e kc w] assms(6,7)
  show ?thesis
    by (simp add: decrypt_str_def)
qed

text \<open>
  The scenario: \<open>acme\<close> with type \<open>HUBSPOT\<close> and instance_url \<open>https://ignored.example\<close>.
\<close>

theorem hubspot_host_overridden_witness:
  \<open>dict_get (org_fields (PBool True) ''acme'' ''HUBSPOT'' (PStr ''gAAAAA_tok123'')
               ''https://ignored.example'') ''instance_url'' PNone
      = PStr ''https://ignored.example''
   \<and> fernet_decrypt (example_env (Some acme_hubspot)) ''K'' ''gAAAAA_tok123'' = Inr ''tok123''
   \<and> execute (example_env (Some acme_hubspot)) example_op (example_world [])
     = (Inr (),
        \<lparr>rows = [example_key_conn,
                 \<lparr>conn_id = ''hs_acme'', conn_type = Some ''http'',
                  host = Some ''https://api.hubapi.com/'', password = Some ''tok123'',
                  extra = Some ''{"auth_type": "direct"}''\<rparr>],
         faults = [],
         calls = [GetConnection (Some ''fernet_key''), VariableGet ''dag_config'',
                  DecryptStr (Some ''K'') ''gAAAAA_tok123'',
                  MergeConnection
                    \<lparr>conn_id = ''hs_acme'', conn_type = Some ''http'',
                     host = Some ''https://api.hubapi.com/'', password = Some ''tok123'',
                     extra = Some ''{"auth_type": "direct"}''\<rparr>]\<rparr>)\<close>
proof -
  let ?d = "org_fields (PBool True) ''acme'' ''HUBSPOT'' (PStr ''gAAAAA_tok123'')
              ''https://ignored.example''"
  have h1: "map_of acme_hubspot ''acme'' = Some (Dict ?d)"
    by (simp add: acme_hubspot_def)
  have h2: "dict_get ?d ''is_enabled'' (PBool False) \<noteq> PBool False"
    and h3: "dict_get ?d ''type'' PNone = PStr ''HUBSPOT''"
    and h4: "dict_get ?d ''token'' PNone = PStr ''gAAAAA_tok123''"
    and h5: "dict_get ?d ''instance_url'' PNone = PStr ''https://ignored.example''"
    and org: "dict_get ?d ''organization'' PNone = PStr ''acme''"
    by (simp_all add: org_fields_def dict_get_def)
  have h6: "password example_key_conn = Some ''K''"
    by simp
  have h7: "fernet_decrypt (example_env (Some acme_hubspot)) ''K'' ''gAAAAA_tok123'' = Inr ''tok123''"
    by (simp add: example_fernet_def)
  have keys: "map fst acme_hubspot = [''acme'']"
    by (simp add: acme_hubspot_def)
  note body = hubspot_host_overridden [OF h1 h2 h3 h4 h5 h6 h7, unfolded org]
  have \<open>execute (example_env (Some acme_hubspot)) example_op (example_world [])
     = (Inr (),
        \<lparr>rows = [example_key_conn,
                 \<lparr>conn_id = ''hs_acme'', conn_type = Some ''http'',
                  host = Some ''https://api.hubapi.com/'', password = Some ''tok123'',
                  extra = Some ''{"auth_type": "direct"}''\<rparr>],
         faults = [],
         calls = [GetConnection (Some ''fernet_key''), VariableGet ''dag_config'',
                  DecryptStr (Some ''K'') ''gAAAAA_tok123'',
                  MergeConnection
                    \<lparr>conn_id = ''hs_acme'', conn_type = Some ''http'',
                     host = Some ''https://api.hubapi.com/'', password = Some ''tok123'',
                     extra = Some ''{"auth_type": "direct"}''\<rparr>]\<rparr>)\<close>
    by (simp add: execute_def Variable_get_def example_world_def keys body
        merge_connection_def Let_def)
  with h5 h7 show ?thesis by simp
qed

subsection \<open>The text of the organization\<close>

lemma digit_facts:
  assumes "c \<in> set ''0123456789''"
  shows "digit_value c < 10" and "digit_char (digit_value c) = c"
  using assms by (auto simp: digit_value_def digit_char_def)

lemma digit_char_facts:
  assumes "n < 10"
  shows "digit_char n \<in> set ''0123456789''" and "digit_value (digit_char n) = n"
proof -
  from assms have "n \<in> {0, 1, 2, 3, 4, 5, 6, 7, 8, 9}"
    by auto
  then show "digit_char n \<in> set ''0123456789''" and "digit_value (digit_char n) = n"
    by (auto simp: digit_char_def digit_value_def)
qed

lemma decimal_value_snoc:
  "decimal_value (u @ [c]) = 10 * decimal_value u + digit_value c"
  by (simp add: decimal_value_def)

lemma decimal_value_zero:
  assumes "set u \<subseteq> set ''0123456789''" and "decimal_value u = 0"
  shows "set u \<subseteq> {CHR ''0''}"
  using assms
proof (induction u rule: rev_induct)
  case Nil
  then show ?case by simp
next
  case (snoc c u)
  from snoc.prems(2) have v: "decimal_value u = 0" and d: "digit_value c = 0"
    by (simp_all add: decimal_value_snoc)
  from snoc.prems(1) have c: "c \<in> set ''0123456789''" and u: "set u \<subseteq> set ''0123456789''"
    by auto
  from digit_facts(2) [OF c] d have "c = CHR ''0''"
    by (simp add: digit_char_def)
  with snoc.IH [OF u v] show ?case by simp
qed

text \<open>\<open>str_nat\<close> gives the decimal numeral, and nothing else is one.\<close>

lemma str_nat_is_decimal:
  "is_decimal (str_nat n) n"
proof (induction n rule: str_nat.induct)
  case (1 n)
  show ?case
  proof (cases "n < 10")
    case True
    then have "str_nat n = [digit_char n]"
      by (subst str_nat.simps) simp
    with digit_char_facts [OF True] show ?thesis
      by (simp add: is_decimal_def decimal_value_def)
  next
    case False
    then have sn: "str_nat n = str_nat (n div 10) @ [digit_char (n mod 10)]"
      by (subst str_nat.simps) simp
    from False "1.IH" have ih: "is_decimal (str_nat (n div 10)) (n div 10)"
      by simp
    then have ne: "str_nat (n div 10) \<noteq> []"
      and digs: "set (str_nat (n div 10)) \<subseteq> set ''0123456789''"
      and canon: "hd (str_nat (n div 10)) = CHR ''0'' \<longrightarrow> str_nat (n div 10) = ''0''"
      and val: "decimal_value (str_nat (n div 10)) = n div 10"
      by (simp_all add: is_decimal_def)
    have m: "n mod 10 < 10" by simp
    have "hd (str_nat (n div 10)) \<noteq> CHR ''0''"
    proof
      assume "hd (str_nat (n div 10)) = CHR ''0''"
      with canon have "str_nat (n div 10) = ''0''" by simp
      with val have "n div 10 = 0"
        by (simp add: decimal_value_def digit_value_def)
      with False show False by simp
    qed
    with ne have hd: "hd (str_nat n) \<noteq> CHR ''0''"
      by (simp add: sn)
    from digs digit_char_facts(1) [OF m] have "set (str_nat n) \<subseteq> set ''0123456789''"
      by (simp add: sn)
    moreover from val digit_char_facts(2) [OF m] have "decimal_value (str_nat n) = n"
      by (simp add: sn decimal_value_snoc)
    ultimately show ?thesis
      using hd by (simp add: is_decimal_def sn)
  qed
qed

lemma is_decimal_unique:
  "is_decimal t n \<Longrightarrow> t = str_nat n"
proof (induction n arbitrary: t rule: str_nat.induct)
  case (1 n)
  from "1.prems" have ne: "t \<noteq> []" and digs: "set t \<subseteq> set ''0123456789''"
    and canon: "hd t = CHR ''0'' \<longrightarrow> t = ''0''" and val: "decimal_value t = n"
    by (simp_all add: is_decimal_def)
  from ne obtain u c where t: "t = u @ [c]"
    by (cases t rule: rev_cases) auto
  from digs t have c: "c \<in> set ''0123456789''" and u: "set u \<subseteq> set ''0123456789''"
    by auto
  from val t have n: "n = 10 * decimal_value u + digit_value c"
    by (simp add: decimal_value_snoc)
  with digit_facts(1) [OF c] have md: "n mod 10 = digit_value c" and dv: "n div 10 = decimal_value u"
    by simp_all
  have hd_u: "hd u \<noteq> CHR ''0''" if "u \<noteq> []"
  proof
    assume "hd u = CHR ''0''"
    with that t have "hd t = CHR ''0''" by simp
    with canon t that show False by simp
  qed
  show ?case
  proof (cases "n < 10")
    case True
    with dv have "decimal_value u = 0" by simp
    from decimal_value_zero [OF u this] hd_u have "u = []"
      by (cases u) auto
    from True have "str_nat n = [digit_char (n mod 10)]"
      by (subst str_nat.simps) simp
    with \<open>u = []\<close> t md digit_facts(2) [OF c] show ?thesis
      by simp
  next
    case False
    with dv have "decimal_value u \<noteq> 0" by simp
    then have une: "u \<noteq> []" by (auto simp: decimal_value_def)
    with u hd_u dv have "is_decimal u (n div 10)"
      by (simp add: is_decimal_def)
    with False "1.IH" have "u = str_nat (n div 10)" by simp
    moreover from False have "str_nat n = str_nat (n div 10) @ [digit_char (n mod 10)]"
      by (subst str_nat.simps) simp
    ultimately show ?thesis
      using t md digit_facts(2) [OF c] by simp
  qed
qed

lemma str_int_is_int_text:
  "is_int_text (str_int i) i"
  by (simp add: is_int_text_def str_int_def str_nat_is_decimal)

lemma is_int_text_unique:
  "is_int_text t i \<Longrightarrow> t = str_int i"
proof (cases "i < 0")
  case True
  assume "is_int_text t i"
  with True have "t \<noteq> []" "hd t = CHR ''-''" "is_decimal (tl t) (nat (- i))"
    by (simp_all add: is_int_text_def)
  with is_decimal_unique [of "tl t" "nat (- i)"] True show ?thesis
    by (cases t) (simp_all add: str_int_def)
next
  case False
  assume "is_int_text t i"
  with False is_decimal_unique [of t "nat i"] show ?thesis
    by (simp add: is_int_text_def str_int_def)
qed

text \<open>Every value of the field has such a text.\<close>

lemma organization_text_exists:
  "\<exists>org_text.
     org = PStr org_text \<or> org = POther org_text
     \<or> org = PNone \<and> org_text = ''None''
     \<or> org = PBool True \<and> org_text = ''True''
     \<or> org = PBool False \<and> org_text = ''False''
     \<or> (\<exists>i. org = PInt i \<and> is_int_text org_text i)"
proof (cases org)
  case (PInt i)
  with str_int_is_int_text [of i] show ?thesis by blast
next
  case (PBool b)
  then show ?thesis by (cases b) auto
qed auto

text \<open>
  C5 (as amended). For an entry that passes the checks (\<open>is_enabled\<close> is not false, in
  particular when it is true; the type is one of the three supported ones; \<open>token\<close> and
  \<open>instance_url\<close> are strings) and whose token decrypts, the connection handed to
  \<open>merge_connection\<close> has the conn_id \<open>prefix_organization\<close>, where the prefix is \<open>sf\<close>
  for \<open>SALESFORCE\<close>, \<open>hs\<close> for \<open>HUBSPOT\<close> and \<open>ga\<close> for \<open>GOOGLE_ANALYTICS\<close>, and the
  organization is the text of the field: a string as it is, \<open>None\<close> when the field is
  missing or null, \<open>True\<close> or \<open>False\<close> for a boolean, the decimal numeral for an int, and
  the text \<open>str()\<close> gives for any other value. Its conn_type is \<open>http\<close>, its host the
  entry's \<open>instance_url\<close> (for \<open>HUBSPOT\<close> the fixed endpoint instead), its extra
  \<open>{"auth_type": "direct"}\<close>, and its password the decrypted token when that is not
  empty; when the token decrypts to the empty string the connection has no password.
\<close>

theorem connection_record_built:
  assumes \<open>map_of cfg k = Some (Dict d)\<close>
    and \<open>dict_get d ''is_enabled'' (PBool False) \<noteq> PBool False\<close>
    and \<open>dict_get d ''type'' PNone = PStr ty\<close>
    and \<open>dict_get d ''token'' PNone = PStr tok\<close>
    and \<open>dict_get d ''instance_url'' PNone = PStr url\<close>
    and \<open>(ty, prefix, h) \<in> {(''SALESFORCE'', ''sf'', url),
                            (''HUBSPOT'', ''hs'', ''https://api.hubapi.com/''),
                            (''GOOGLE_ANALYTICS'', ''ga'', url)}\<close>
    and \<open>dict_get d ''organization'' PNone = org\<close>
    and \<open>org = PStr org_text \<or> org = POther org_text
         \<or> org = PNone \<and> org_text = ''None''
         \<or> org = PBool True \<and> org_text = ''True''
         \<or> org = PBool False \<and> org_text = ''False''
         \<or> (\<exists>i. org = PInt i \<and> is_int_text org_text i)\<close>
    and \<open>password kc = Some key\<close>
    and \<open>fernet_decrypt e key tok = Inr plain\<close>
  shows \<open>loop_body e kc cfg k w =
           merge_connection
             \<lparr>conn_id = prefix @ ''_'' @ org_text,
              conn_type = Some ''http'', host = Some h,
              password = (if plain = [] then None else Some plain),
              extra = Some ''{"auth_type": "direct"}''\<rparr>
             (w\<lparr>calls := calls w @ [DecryptStr (Some key) tok]\<rparr>)\<close>
proof -
  from assms(8) have "py_str org = org_text"
    by (auto dest: is_int_text_unique)
  with assms(7) have "py_str (dict_get d ''organization'' PNone) = org_text"
    by simp
  with loop_body_accepted [OF assms(1-6), of e kc w] assms(9,10) show ?thesis
    by (simp add: decrypt_str_def)
qed

text \<open>
  The scenario: \<open>acme\<close> with type \<open>SALESFORCE\<close>, whose token is the ciphertext of
  \<open>tok123\<close> under the key \<open>K\<close>. And an entry whose organization is the number 42: its
  conn_id is \<open>ga_42\<close>.
\<close>

theorem connection_record_built_witness:
  \<open>(''SALESFORCE'', ''sf'', ''https://acme.my.salesforce.com'')
      \<in> {(''SALESFORCE'', ''sf'', ''https://acme.my.salesforce.com''),
          (''HUBSPOT'', ''hs'', ''https://api.hubapi.com/''),
          (''GOOGLE_ANALYTICS'', ''ga'', ''https://acme.my.salesforce.com'')}
   \<and> fernet_decrypt (example_env (Some acme_salesforce)) ''K'' ''gAAAAA_tok123'' = Inr ''tok123''
   \<and> execute (example_env (Some acme_salesforce)) example_op (example_world [])
     = (Inr (),
        \<lparr>rows = [example_key_conn,
                 \<lparr>conn_id = ''sf_acme'', conn_type = Some ''http'',
                  host = Some ''https://acme.my.salesforce.com'', password = Some ''tok123'',
                  extra = Some ''{"auth_type": "direct"}''\<rparr>],
         faults = [],
         calls = [GetConnection (Some ''fernet_key''), VariableGet ''dag_config'',
                  DecryptStr (Some ''K'') ''gAAAAA_tok123'',
                  MergeConnection
                    \<lparr>conn_id = ''sf_acme'', conn_type = Some ''http'',
                     host = Some ''https://acme.my.salesforce.com'', password = Some ''tok123'',
                     extra = Some ''{"auth_type": "direct"}''\<rparr>]\<rparr>)
   \<and> dict_get numbered_fields ''organization'' PNone = PInt 42
   \<and> is_int_text ''42'' 42
   \<and> rows (snd (execute (example_env (Some acme_numbered)) example_op (example_world [])))
     = [example_key_conn,
        \<lparr>conn_id = ''ga_42'', conn_type = Some ''http'',
         host = Some ''https://analytics.example'', password = Some ''tok123'',
         extra = Some ''{"auth_type": "direct"}''\<rparr>]\<close>
proof -
  let ?d = "org_fields (PBool True) ''acme'' ''SALESFORCE'' (PStr ''gAAAAA_tok123'')
              ''https://acme.my.salesforce.com''"
  have h1: "map_of acme_salesforce ''acme'' = Some (Dict ?d)"
    by (simp add: acme_salesforce_def)
  have h2: "dict_get ?d ''is_enabled'' (PBool False) \<noteq> PBool False"
    and h3: "dict_get ?d ''type'' PNone = PStr ''SALESFORCE''"
    and h4: "dict_get ?d ''token'' PNone = PStr ''gAAAAA_tok123''"
    and h5: "dict_get ?d ''instance_url'' PNone = PStr ''https://acme.my.salesforce.com''"
    and org: "dict_get ?d ''organization'' PNone = PStr ''acme''"
    by (simp_all add: org_fields_def dict_get_def)
  have h6: \<open>(''SALESFORCE'', ''sf'', ''https://acme.my.salesforce.com'')
      \<in> {(''SALESFORCE'', ''sf'', ''https://acme.my.salesforce.com''),
          (''HUBSPOT'', ''hs'', ''https://api.hubapi.com/''),
          (''GOOGLE_ANALYTICS'', ''ga'', ''https://acme.my.salesforce.com'')}\<close>
    by simp
  have h7: \<open>PStr ''acme'' = PStr ''acme'' \<or> PStr ''acme'' = POther ''acme''
         \<or> PStr ''acme'' = PNone \<and> ''acme'' = ''None''
         \<or> PStr ''acme'' = PBool True \<and> ''acme'' = ''True''
         \<or> PStr ''acme'' = PBool False \<and> ''acme'' = ''False''
         \<or> (\<exists>i. PStr ''acme'' = PInt i \<and> is_int_text ''acme'' i)\<close>
    by simp
  have h8: "password example_key_conn = Some ''K''"
    by simp
  have h9: "fernet_decrypt (example_env (Some acme_salesforce)) ''K'' ''gAAAAA_tok123'' = Inr ''tok123''"
    by (simp add: example_fernet_def)
  have keys: "map fst acme_salesforce = [''acme'']"
    by (simp add: acme_salesforce_def)
  note body = connection_record_built [OF h1 h2 h3 h4 h5 h6 org h7 h8 h9]
  have a: \<open>execute (example_env (Some acme_salesforce)) example_op (example_world [])
     = (Inr (),
        \<lparr>rows = [example_key_conn,
                 \<lparr>conn_id = ''sf_acme'', conn_type = Some ''http'',
                  host = Some ''https://acme.my.salesforce.com'', password = Some ''tok123'',
                  extra = Some ''{"auth_type": "direct"}''\<rparr>],
         faults = [],
         calls = [GetConnection (Some ''fernet_key''), VariableGet ''dag_config'',
                  DecryptStr (Some ''K'') ''gAAAAA_tok123'',
                  MergeConnection
                    \<lparr>conn_id = ''sf_acme'', conn_type = Some ''http'',
                     host = Some ''https://acme.my.salesforce.com'', password = Some ''tok123'',
                     extra = Some ''{"auth_type": "direct"}''\<rparr>]\<rparr>)\<close>
    by (simp add: execute_def Variable_get_def example_world_def keys body
        merge_connection_def Let_def)
  have n1: "map_of acme_numbered ''acme'' = Some (Dict numbered_fields)"
    by (simp add: acme_numbered_def)
  have n2: "dict_get numbered_fields ''is_enabled'' (PBool False) \<noteq> PBool False"
    and n3: "dict_get numbered_fields ''type'' PNone = PStr ''GOOGLE_ANALYTICS''"
    and n4: "dict_get numbered_fields ''token'' PNone = PStr ''gAAAAA_tok123''"
    and n5: "dict_get numbered_fields ''instance_url'' PNone = PStr ''https://analytics.example''"
    and norg: "dict_get numbered_fields ''organization'' PNone = PInt 42"
    by (simp_all add: numbered_fields_def dict_get_def)
  have n6: \<open>(''GOOGLE_ANALYTICS'', ''ga'', ''https://analytics.example'')
      \<in> {(''SALESFORCE'', ''sf'', ''https://analytics.example''),
          (''HUBSPOT'', ''hs'', ''https://api.hubapi.com/''),
          (''GOOGLE_ANALYTICS'', ''ga'', ''https://analytics.example'')}\<close>
    by simp
  have int42: "is_int_text ''42'' 42"
    by (simp add: is_int_text_def is_decimal_def decimal_value_def digit_value_def)
  then have n7: \<open>PInt 42 = PStr ''42'' \<or> PInt 42 = POther ''42''
         \<or> PInt 42 = PNone \<and> ''42'' = ''None''
         \<or> PInt 42 = PBool True \<and> ''42'' = ''True''
         \<or> PInt 42 = PBool False \<and> ''42'' = ''False''
         \<or> (\<exists>i. PInt 42 = PInt i \<and> is_int_text ''42'' i)\<close>
    by simp
  have n9: "fernet_decrypt (example_env (Some acme_numbered)) ''K'' ''gAAAAA_tok123'' = Inr ''tok123''"
    by (simp add: example_fernet_def)
  have nkeys: "map fst acme_numbered = [''acme'']"
    by (simp add: acme_numbered_def)
  note nbody = connection_record_built [OF n1 n2 n3 n4 n5 n6 norg n7 h8 n9]
  have b: \<open>rows (snd (execute (example_env (Some acme_numbered)) example_op (example_world [])))
     = [example_key_conn,
        \<lparr>conn_id = ''ga_42'', conn_type = Some ''http'',
         host = Some ''https://analytics.example'', password = Some ''tok123'',
         extra = Some ''{"auth_type": "direct"}''\<rparr>]\<close>
    by (simp add: execute_def Variable_get_def example_world_def nkeys nbody
        merge_connection_def Let_def)
  from h6 h9 a norg int42 b show ?thesis
    by (intro conjI)
qed

text \<open>
  The claim as stated fails for a token that decrypts to the empty string: the row is
  created with no password, not with the decrypted token as password.
\<close>

theorem empty_token_counterexample:
  \<open>fernet_decrypt (example_env (Some (acme_with (PBool True) (PStr ''gAAAAA_empty''))))
       ''K'' ''gAAAAA_empty'' = Inr []
   \<and> rows (snd (execute (example_env (Some (acme_with (PBool True) (PStr ''gAAAAA_empty''))))
                  example_op (example_world [])))
     = [example_key_conn,
        \<lparr>conn_id = ''sf_acme'', conn_type = Some ''http'',
         host = Some ''https://acme.my.salesforce.com'', password = None,
         extra = Some ''{"auth_type": "direct"}''\<rparr>]\<close>
  by (simp add: example_defs run_defs Let_def)

text \<open>
  C10. The \<open>organization\<close> field is not checked. An entry that passes the checks and has
  no \<open>organization\<close> field is not skipped: when its token decrypts, a connection is
  handed to \<open>merge_connection\<close> whose conn_id is the prefix followed by \<open>_None\<close>
  (\<open>sf_None\<close> for \<open>SALESFORCE\<close>), the other fields being built as usual.
\<close>

theorem missing_organization_gives_None:
  assumes \<open>map_of cfg k = Some (Dict d)\<close>
    and \<open>map_of d ''organization'' = None\<close>
    and \<open>dict_get d ''is_enabled'' (PBool False) \<noteq> PBool False\<close>
    and \<open>dict_get d ''type'' PNone = PStr ty\<close>
    and \<open>dict_get d ''token'' PNone = PStr tok\<close>
    and \<open>dict_get d ''instance_url'' PNone = PStr url\<close>
    and \<open>(ty, prefix, h) \<in> {(''SALESFORCE'', ''sf'', url),
                            (''HUBSPOT'', ''hs'', ''https://api.hubapi.com/''),
                            (''GOOGLE_ANALYTICS'', ''ga'', url)}\<close>
    and \<open>password kc = Some key\<close>
    and \<open>fernet_decrypt e key tok = Inr plain\<close>
  shows \<open>loop_body e kc cfg k w =
           merge_connection
             \<lparr>conn_id = prefix @ ''_None'',
              conn_type = Some ''http'', host = Some h,
              password = (if plain = [] then None else Some plain), extra = Some ''{"auth_type": "direct"}''\<rparr>
             (w\<lparr>calls := calls w @ [DecryptStr (Some key) tok]\<rparr>)\<close>
proof -
  from assms(2) have "py_str (dict_get d ''organization'' PNone) = ''None''"
    by (simp add: dict_get_def)
  with loop_body_accepted [OF assms(1) assms(3-7), of e kc w] assms(8,9)
  show ?thesis
    by (simp add: decrypt_str_def)
qed

text \<open>A \<open>SALESFORCE\<close> entry without \<open>organization\<close>: the row \<open>sf_None\<close> is created.\<close>

theorem missing_organization_gives_None_witness:
  \<open>map_of no_organization_fields ''organization'' = None
   \<and> fernet_decrypt (example_env (Some acme_no_organization)) ''K'' ''gAAAAA_tok123''
       = Inr ''tok123''
   \<and> execute (example_env (Some acme_no_organization)) example_op (example_world [])
     = (Inr (),
        \<lparr>rows = [example_key_conn,
                 \<lparr>conn_id = ''sf_None'', conn_type = Some ''http'',
                  host = Some ''https://acme.my.salesforce.com'', password = Some ''tok123'',
                  extra = Some ''{"auth_type": "direct"}''\<rparr>],
         faults = [],
         calls = [GetConnection (Some ''fernet_key''), VariableGet ''dag_config'',
                  DecryptStr (Some ''K'') ''gAAAAA_tok123'',
                  MergeConnection
                    \<lparr>conn_id = ''sf_None'', conn_type = Some ''http'',
                     host = Some ''https://acme.my.salesforce.com'', password = Some ''tok123'',
                     extra = Some ''{"auth_type": "direct"}''\<rparr>]\<rparr>)\<close>
proof -
  let ?d = "no_organization_fields"
  have h1: "map_of acme_no_organization ''acme'' = Some (Dict ?d)"
    by (simp add: acme_no_organization_def)
  have h0: "map_of ?d ''organization'' = None"
    by (simp add: no_organization_fields_def)
  have h2: "dict_get ?d ''is_enabled'' (PBool False) \<noteq> PBool False"
    and h3: "dict_get ?d ''type'' PNone = PStr ''SALESFORCE''"
    and h4: "dict_get ?d ''token'' PNone = PStr ''gAAAAA_tok123''"
    and h5: "dict_get ?d ''instance_url'' PNone = PStr ''https://acme.my.salesforce.com''"
    by (simp_all add: no_organization_fields_def dict_get_def)
  have h6: \<open>(''SALESFORCE'', ''sf'', ''https://acme.my.salesforce.com'')
      \<in> {(''SALESFORCE'', ''sf'', ''https://acme.my.salesforce.com''),
          (''HUBSPOT'', ''hs'', ''https://api.hubapi.com/''),
          (''GOOGLE_ANALYTICS'', ''ga'', ''https://acme.my.salesforce.com'')}\<close>
    by simp
  have h7: "password example_key_conn = Some ''K''"
    by simp
  have h8: "fernet_decrypt (example_env (Some acme_no_organization)) ''K'' ''gAAAAA_tok123''
              = Inr ''tok123''"
    by (simp add: example_fernet_def)
  have keys: "map fst acme_no_organization = [''acme'']"
    by (simp add: acme_no_organization_def)
  note body = missing_organization_gives_None [OF h1 h0 h2 h3 h4 h5 h6 h7 h8]
  have \<open>execute (example_env (Some acme_no_organization)) example_op (example_world [])
     = (Inr (),
        \<lparr>rows = [example_key_conn,
                 \<lparr>conn_id = ''sf_None'', conn_type = Some ''http'',
                  host = Some ''https://acme.my.salesforce.com'', password = Some ''tok123'',
                  extra = Some ''{"auth_type": "direct"}''\<rparr>],
         faults = [],
         calls = [GetConnection (Some ''fernet_key''), VariableGet ''dag_config'',
                  DecryptStr (Some ''K'') ''gAAAAA_tok123'',
                  MergeConnection
                    \<lparr>conn_id = ''sf_None'', conn_type = Some ''http'',
                     host = Some ''https://acme.my.salesforce.com'', password = Some ''tok123'',
                     extra = Some ''{"auth_type": "direct"}''\<rparr>]\<rparr>)\<close>
    by (simp add: execute_def Variable_get_def example_world_def keys body
        merge_connection_def Let_def)
  with h0 h8 show ?thesis by simp
qed

section \<open>Exceptions during the loop\<close>

lemma loop_body_decrypt_fails:
  assumes "map_of cfg k = Some (Dict d)"
    and "dict_get d ''is_enabled'' (PBool False) \<noteq> PBool False"
    and "dict_get d ''type'' PNone \<in> set enabled_types"
    and "dict_get d ''token'' PNone = PStr tok"
    and "dict_get d ''instance_url'' PNone = PStr url"
    and "fst (decrypt_str e (password kc) tok w) = Inl err"
  shows "loop_body e kc cfg k w = (Inl err, w\<lparr>calls := calls w @ [DecryptStr (password kc) tok]\<rparr>)"
  using assms by (simp add: loop_body_def decrypt_str_def)

lemma execute_unfold:
  assumes "get_connection e (rows w) (fernet_key_conn_id self) = Inr kc"
    and "Variable_get e (config_variable_key self) [] = Inr cfg"
  shows "execute e self w =
           for_loop e kc cfg (map fst cfg)
             (w\<lparr>calls := calls w @ [GetConnection (fernet_key_conn_id self),
                                     VariableGet (config_variable_key self)]\<rparr>)"
  using assms by (simp add: execute_def)

text \<open>
  C6. When \<open>decrypt_str\<close> raises for the token of an accepted entry, the exception leaves
  \<open>execute\<close>: the run ends with it, in the world the entries before had left (their
  rows stay committed) with only the call to \<open>decrypt_str\<close> added, so nothing is merged
  for that entry and no later entry is looked at.
\<close>

theorem decryption_failure_aborts_run:
  assumes "get_connection e (rows w) (fernet_key_conn_id self) = Inr kc"
    and "Variable_get e (config_variable_key self) [] = Inr cfg"
    and "map fst cfg = pre @ k # post"
    and "for_loop e kc cfg pre
           (w\<lparr>calls := calls w @ [GetConnection (fernet_key_conn_id self),
                                   VariableGet (config_variable_key self)]\<rparr>) = (Inr (), w1)"
    and "map_of cfg k = Some (Dict d)"
    and "dict_get d ''is_enabled'' (PBool False) \<noteq> PBool False"
    and "dict_get d ''type'' PNone
           \<in> {PStr ''GOOGLE_ANALYTICS'', PStr ''HUBSPOT'', PStr ''SALESFORCE''}"
    and "dict_get d ''token'' PNone = PStr tok"
    and "dict_get d ''instance_url'' PNone = PStr url"
    and "fst (decrypt_str e (password kc) tok w1) = Inl err"
  shows "execute e self w = (Inl err, w1\<lparr>calls := calls w1 @ [DecryptStr (password kc) tok]\<rparr>)"
proof -
  from assms(7) have ty: "dict_get d ''type'' PNone \<in> set enabled_types"
    by (simp add: enabled_types_def)
  have body: "loop_body e kc cfg k w1
                = (Inl err, w1\<lparr>calls := calls w1 @ [DecryptStr (password kc) tok]\<rparr>)"
    using assms(5,6) ty assms(8,9,10) by (rule loop_body_decrypt_fails)
  show ?thesis
    by (simp add: execute_unfold [OF assms(1,2)] assms(3,4) for_loop_append body)
qed

text \<open>
  Three accepted entries, the second with a token that does not decrypt: the first is
  committed, the run ends with InvalidToken, the third is never reached.
\<close>

theorem decryption_failure_aborts_run_witness:
  \<open>map fst (three_orgs ''garbage'') = [''acme''] @ ''initech'' # [''globex'']
   \<and> execute (example_env (Some (three_orgs ''garbage''))) example_op (example_world [])
     = (Inl InvalidToken,
        \<lparr>rows = [example_key_conn,
                 \<lparr>conn_id = ''sf_acme'', conn_type = Some ''http'',
                  host = Some ''https://acme.my.salesforce.com'', password = Some ''tok123'',
                  extra = Some ''{"auth_type": "direct"}''\<rparr>],
         faults = [],
         calls = [GetConnection (Some ''fernet_key''), VariableGet ''dag_config'',
                  DecryptStr (Some ''K'') ''gAAAAA_tok123'',
                  MergeConnection
                    \<lparr>conn_id = ''sf_acme'', conn_type = Some ''http'',
                     host = Some ''https://acme.my.salesforce.com'', password = Some ''tok123'',
                     extra = Some ''{"auth_type": "direct"}''\<rparr>,
                  DecryptStr (Some ''K'') ''garbage'']\<rparr>)\<close>
proof -
  let ?e = "example_env (Some (three_orgs ''garbage''))"
  let ?d = "org_fields (PBool True) ''initech'' ''GOOGLE_ANALYTICS'' (PStr ''garbage'')
              ''https://analytics.example''"
  let ?acme = \<open>\<lparr>conn_id = ''sf_acme'', conn_type = Some ''http'',
                host = Some ''https://acme.my.salesforce.com'', password = Some ''tok123'',
                extra = Some ''{"auth_type": "direct"}''\<rparr>\<close>
  let ?w1 = "\<lparr>rows = [example_key_conn, ?acme], faults = [],
              calls = [GetConnection (Some ''fernet_key''), VariableGet ''dag_config'',
                       DecryptStr (Some ''K'') ''gAAAAA_tok123'', MergeConnection ?acme]\<rparr>"
  have h1: "get_connection ?e (rows (example_world [])) (fernet_key_conn_id example_op)
              = Inr example_key_conn"
    by (simp add: example_world_def)
  have h2: "Variable_get ?e (config_variable_key example_op) [] = Inr (three_orgs ''garbage'')"
    by (simp add: Variable_get_def)
  have h3: "map fst (three_orgs ''garbage'') = [''acme''] @ ''initech'' # [''globex'']"
    by (simp add: three_orgs_def)
  have h4: "for_loop ?e example_key_conn (three_orgs ''garbage'') [''acme'']
              ((example_world [])\<lparr>calls := calls (example_world [])
                 @ [GetConnection (fernet_key_conn_id example_op),
                    VariableGet (config_variable_key example_op)]\<rparr>) = (Inr (), ?w1)"
    by (simp add: example_world_def three_orgs_def org_fields_def loop_body_def dict_get_def
        enabled_types_def decrypt_str_def example_fernet_def merge_connection_def
        format_0_1_def Let_def)
  have h5: "map_of (three_orgs ''garbage'') ''initech'' = Some (Dict ?d)"
    by (simp add: three_orgs_def)
  have h6: "dict_get ?d ''is_enabled'' (PBool False) \<noteq> PBool False"
    and h7: "dict_get ?d ''type'' PNone
           \<in> {PStr ''GOOGLE_ANALYTICS'', PStr ''HUBSPOT'', PStr ''SALESFORCE''}"
    and h8: "dict_get ?d ''token'' PNone = PStr ''garbage''"
    and h9: "dict_get ?d ''instance_url'' PNone = PStr ''https://analytics.example''"
    by (simp_all add: org_fields_def dict_get_def)
  have h10: "fst (decrypt_str ?e (password example_key_conn) ''garbage'' ?w1) = Inl InvalidToken"
    by (simp add: decrypt_str_def example_fernet_def)
  from decryption_failure_aborts_run [OF h1 h2 h3 h4 h5 h6 h7 h8 h9 h10] h3
  show ?thesis
    by simp
qed

text \<open>
  C7 (as amended). When the session transaction of \<open>merge_connection\<close> raises for an
  entry, nothing is committed for that entry and the exception leaves \<open>execute\<close>: the
  run ends with it, the rows are those the entries before had left, and no later entry
  is looked at.
\<close>

theorem persistence_failure_aborts_run:
  assumes \<open>get_connection e (rows w) (fernet_key_conn_id self) = Inr kc\<close>
    and \<open>Variable_get e (config_variable_key self) [] = Inr cfg\<close>
    and \<open>map fst cfg = pre @ k # post\<close>
    and \<open>for_loop e kc cfg pre
           (w\<lparr>calls := calls w @ [GetConnection (fernet_key_conn_id self),
                                   VariableGet (config_variable_key self)]\<rparr>) = (Inr (), w1)\<close>
    and \<open>map_of cfg k = Some (Dict d)\<close>
    and \<open>dict_get d ''is_enabled'' (PBool False) \<noteq> PBool False\<close>
    and \<open>dict_get d ''type'' PNone = PStr ty\<close>
    and \<open>dict_get d ''token'' PNone = PStr tok\<close>
    and \<open>dict_get d ''instance_url'' PNone = PStr url\<close>
    and \<open>(ty, prefix, h) \<in> {(''SALESFORCE'', ''sf'', url),
                            (''HUBSPOT'', ''hs'', ''https://api.hubapi.com/''),
                            (''GOOGLE_ANALYTICS'', ''ga'', url)}\<close>
    and \<open>password kc = Some key\<close>
    and \<open>fernet_decrypt e key tok = Inr plain\<close>
    and \<open>faults w1 = True # fs\<close>
  shows \<open>execute e self w =
           (Inl SQLAlchemyError,
            w1\<lparr>faults := fs,
                calls := calls w1 @
                  [DecryptStr (Some key) tok,
                   MergeConnection
                     \<lparr>conn_id = prefix @ ''_'' @ py_str (dict_get d ''organization'' PNone),
                      conn_type = Some ''http'', host = Some h,
                      password = (if plain = [] then None else Some plain), extra = Some ''{"auth_type": "direct"}''\<rparr>]\<rparr>)\<close>
proof -
  have body: \<open>loop_body e kc cfg k w1 =
           (Inl SQLAlchemyError,
            w1\<lparr>faults := fs,
                calls := calls w1 @
                  [DecryptStr (Some key) tok,
                   MergeConnection
                     \<lparr>conn_id = prefix @ ''_'' @ py_str (dict_get d ''organization'' PNone),
                      conn_type = Some ''http'', host = Some h,
                      password = (if plain = [] then None else Some plain), extra = Some ''{"auth_type": "direct"}''\<rparr>]\<rparr>)\<close>
    using loop_body_accepted [OF assms(5-10), of e kc w1] assms(11-13)
    by (simp add: decrypt_str_def merge_connection_def)
  show ?thesis
    by (simp add: execute_unfold [OF assms(1,2)] assms(3,4) for_loop_append body)
qed

text \<open>
  Three accepted entries; the first transaction commits and the second raises: the run
  ends with the exception, the first row stays, the third entry is never reached.
\<close>

theorem persistence_failure_aborts_run_witness:
  \<open>map fst (three_orgs ''gAAAAA_tok456'') = [''acme''] @ ''initech'' # [''globex'']
   \<and> fst (execute (example_env (Some (three_orgs ''gAAAAA_tok456''))) example_op
            (example_world [False, True])) = Inl SQLAlchemyError
   \<and> rows (snd (execute (example_env (Some (three_orgs ''gAAAAA_tok456''))) example_op
            (example_world [False, True])))
     = [example_key_conn,
        \<lparr>conn_id = ''sf_acme'', conn_type = Some ''http'',
         host = Some ''https://acme.my.salesforce.com'', password = Some ''tok123'',
         extra = Some ''{"auth_type": "direct"}''\<rparr>]\<close>
proof -
  let ?cfg = "three_orgs ''gAAAAA_tok456''"
  let ?e = "example_env (Some ?cfg)"
  let ?d = "org_fields (PBool True) ''initech'' ''GOOGLE_ANALYTICS'' (PStr ''gAAAAA_tok456'')
              ''https://analytics.example''"
  let ?acme = \<open>\<lparr>conn_id = ''sf_acme'', conn_type = Some ''http'',
                host = Some ''https://acme.my.salesforce.com'', password = Some ''tok123'',
                extra = Some ''{"auth_type": "direct"}''\<rparr>\<close>
  let ?w1 = "\<lparr>rows = [example_key_conn, ?acme], faults = [True],
              calls = [GetConnection (Some ''fernet_key''), VariableGet ''dag_config'',
                       DecryptStr (Some ''K'') ''gAAAAA_tok123'', MergeConnection ?acme]\<rparr>"
  have h1: "get_connection ?e (rows (example_world [False, True])) (fernet_key_conn_id example_op)
              = Inr example_key_conn"
    by (simp add: example_world_def)
  have h2: "Variable_get ?e (config_variable_key example_op) [] = Inr ?cfg"
    by (simp add: Variable_get_def)
  have h3: "map fst ?cfg = [''acme''] @ ''initech'' # [''globex'']"
    by (simp add: three_orgs_def)
  have h4: "for_loop ?e example_key_conn ?cfg [''acme'']
              ((example_world [False, True])\<lparr>calls := calls (example_world [False, True])
                 @ [GetConnection (fernet_key_conn_id example_op),
                    VariableGet (config_variable_key example_op)]\<rparr>) = (Inr (), ?w1)"
    by (simp add: example_world_def three_orgs_def org_fields_def loop_body_def dict_get_def
        enabled_types_def decrypt_str_def example_fernet_def merge_connection_def
        format_0_1_def Let_def)
  have h5: "map_of ?cfg ''initech'' = Some (Dict ?d)"
    by (simp add: three_orgs_def)
  have h6: "dict_get ?d ''is_enabled'' (PBool False) \<noteq> PBool False"
    and h7: "dict_get ?d ''type'' PNone = PStr ''GOOGLE_ANALYTICS''"
    and h8: "dict_get ?d ''token'' PNone = PStr ''gAAAAA_tok456''"
    and h9: "dict_get ?d ''instance_url'' PNone = PStr ''https://analytics.example''"
    by (simp_all add: org_fields_def dict_get_def)
  have h10: \<open>(''GOOGLE_ANALYTICS'', ''ga'', ''https://analytics.example'')
      \<in> {(''SALESFORCE'', ''sf'', ''https://analytics.example''),
          (''HUBSPOT'', ''hs'', ''https://api.hubapi.com/''),
          (''GOOGLE_ANALYTICS'', ''ga'', ''https://analytics.example'')}\<close>
    by simp
  have h11: "password example_key_conn = Some ''K''"
    by simp
  have h12: "fernet_decrypt ?e ''K'' ''gAAAAA_tok456'' = Inr ''tok456''"
    by (simp add: example_fernet_def)
  have h13: "faults ?w1 = True # []"
    by simp
  from persistence_failure_aborts_run [OF h1 h2 h3 h4 h5 h6 h7 h8 h9 h10 h11 h12 h13] h3
  show ?thesis
    by simp
qed

text \<open>
  The claim as stated fails: when the first transaction raises, the run itself fails and
  the two entries after it, both valid, get no row.
\<close>

theorem persistence_failure_counterexample:
  \<open>fst (execute (example_env (Some (three_orgs ''gAAAAA_tok456''))) example_op
          (example_world [True])) = Inl SQLAlchemyError
   \<and> rows (snd (execute (example_env (Some (three_orgs ''gAAAAA_tok456''))) example_op
          (example_world [True]))) = [example_key_conn]\<close>
  by (simp add: example_defs run_defs Let_def)

section \<open>What one iteration can do to the world\<close>

lemma loop_body_shape:
  "loop_body e kc cfg k w = (Inr (), w)
   \<or> (\<exists>err. loop_body e kc cfg k w = (Inl err, w))
   \<or> (\<exists>tok err. fst (decrypt_str e (password kc) tok w) = Inl err \<and>
         loop_body e kc cfg k w
           = (Inl err, w\<lparr>calls := calls w @ [DecryptStr (password kc) tok]\<rparr>))
   \<or> (\<exists>tok plain c. fst (decrypt_str e (password kc) tok w) = Inr plain \<and>
         loop_body e kc cfg k w
           = merge_connection c (w\<lparr>calls := calls w @ [DecryptStr (password kc) tok]\<rparr>))"
proof (cases "map_of cfg k")
  case None
  then show ?thesis by (simp add: loop_body_def)
next
  case (Some en)
  show ?thesis
  proof (cases en)
    case NotDict
    with Some show ?thesis by (simp add: loop_body_def)
  next
    case (Dict d)
    show ?thesis
    proof (cases "dict_get d ''is_enabled'' (PBool False) = PBool False
                  \<or> dict_get d ''type'' PNone \<notin> set enabled_types
                  \<or> (\<forall>s. dict_get d ''token'' PNone \<noteq> PStr s)
                  \<or> (\<forall>s. dict_get d ''instance_url'' PNone \<noteq> PStr s)")
      case True
      with Some Dict have "loop_body e kc cfg k w = (Inr (), w)"
        by (auto simp: loop_body_def Let_def split: pyval.splits)
      then show ?thesis by simp
    next
      case False
      then obtain tok url where
        "dict_get d ''is_enabled'' (PBool False) \<noteq> PBool False"
        "dict_get d ''type'' PNone \<in> set enabled_types"
        "dict_get d ''token'' PNone = PStr tok"
        "dict_get d ''instance_url'' PNone = PStr url"
        by auto
      with Some Dict show ?thesis
        by (cases "fst (decrypt_str e (password kc) tok w)")
           (auto simp: loop_body_def Let_def decrypt_str_def split: prod.splits)
    qed
  qed
qed

lemma merge_connection_rows:
  "rows (snd (merge_connection c w)) = rows w
   \<or> rows (snd (merge_connection c w)) = filter (\<lambda>r. conn_id r \<noteq> conn_id c) (rows w) @ [c]"
  by (simp add: merge_connection_def Let_def)

lemma loop_body_rows:
  "rows (snd (loop_body e kc cfg k w)) = rows w
   \<or> (\<exists>c. rows (snd (loop_body e kc cfg k w))
            = filter (\<lambda>r. conn_id r \<noteq> conn_id c) (rows w) @ [c])"
  using loop_body_shape [of e kc cfg k w]
proof (elim disjE exE conjE)
  fix tok plain c
  assume "loop_body e kc cfg k w
            = merge_connection c (w\<lparr>calls := calls w @ [DecryptStr (password kc) tok]\<rparr>)"
  then show ?thesis
    using merge_connection_rows [of c "w\<lparr>calls := calls w @ [DecryptStr (password kc) tok]\<rparr>"]
    by auto
qed simp_all

text \<open>
  A property of the table that every delete-then-insert keeps is kept by the loop, by a
  run and by a sequence of runs, whether they fail or not.
\<close>

lemma for_loop_rows_invariant:
  assumes step: "\<And>c rs. P rs \<Longrightarrow> P (filter (\<lambda>r. conn_id r \<noteq> conn_id c) rs @ [c])"
    and "P (rows w)"
  shows "P (rows (snd (for_loop e kc cfg ks w)))"
  using assms(2)
proof (induction ks arbitrary: w)
  case Nil
  then show ?case by simp
next
  case (Cons k ks)
  from loop_body_rows [of e kc cfg k w] Cons.prems step
  have "P (rows (snd (loop_body e kc cfg k w)))"
    by auto
  then show ?case
    using Cons.IH [of "snd (loop_body e kc cfg k w)"]
    by (auto split: prod.splits sum.splits)
qed

lemma execute_rows_invariant:
  assumes step: "\<And>c rs. P rs \<Longrightarrow> P (filter (\<lambda>r. conn_id r \<noteq> conn_id c) rs @ [c])"
    and "P (rows w)"
  shows "P (rows (snd (execute e self w)))"
proof (cases "get_connection e (rows w) (fernet_key_conn_id self)")
  case (Inl err)
  with assms(2) show ?thesis by (simp add: execute_def)
next
  case (Inr kc)
  show ?thesis
  proof (cases "Variable_get e (config_variable_key self) []")
    case (Inl err)
    with Inr assms(2) show ?thesis by (simp add: execute_def)
  next
    case cfg: (Inr cfg)
    show ?thesis
      unfolding execute_unfold [OF Inr cfg]
      by (rule for_loop_rows_invariant [where P = P, OF step]) (simp_all add: assms(2))
  qed
qed

lemma runs_rows_invariant:
  assumes step: "\<And>c rs. P rs \<Longrightarrow> P (filter (\<lambda>r. conn_id r \<noteq> conn_id c) rs @ [c])"
    and "P (rows w)"
  shows "P (rows (runs rs w))"
  using assms(2)
proof (induction rs arbitrary: w)
  case Nil
  then show ?case by simp
next
  case (Cons r rs)
  obtain e self where r: "r = (e, self)" by (cases r)
  have "P (rows (snd (execute e self w)))"
    using step Cons.prems by (rule execute_rows_invariant)
  then show ?case
    by (simp add: r Cons.IH)
qed

lemma distinct_delete_insert:
  "distinct (map conn_id rs) \<Longrightarrow>
   distinct (map conn_id (filter (\<lambda>r. conn_id r \<noteq> conn_id c) rs @ [c]))"
  by (auto simp: distinct_map_filter)

lemma count_delete_insert:
  "length (filter (\<lambda>r. conn_id r = i) (filter (\<lambda>r. conn_id r \<noteq> conn_id c) rs @ [c]))
     = (if i = conn_id c then 1 else length (filter (\<lambda>r. conn_id r = i) rs))"
proof (cases "i = conn_id c")
  case True
  then show ?thesis by (simp add: filter_empty_conv)
next
  case False
  then have "filter (\<lambda>r. conn_id r \<noteq> conn_id c \<and> conn_id r = i) rs
               = filter (\<lambda>r. conn_id r = i) rs"
    by (intro filter_cong) auto
  with False show ?thesis by simp
qed

lemma for_loop_Cons_success:
  assumes "for_loop e kc cfg (pre @ k # post) w = (Inr (), w')"
  obtains w1 w2 where "for_loop e kc cfg pre w = (Inr (), w1)"
    and "loop_body e kc cfg k w1 = (Inr (), w2)"
    and "for_loop e kc cfg post w2 = (Inr (), w')"
  using assms
  by (auto simp: for_loop_append split: prod.splits sum.splits)

lemma loop_body_accepted_success:
  assumes \<open>map_of cfg k = Some (Dict d)\<close>
    and \<open>dict_get d ''is_enabled'' (PBool False) \<noteq> PBool False\<close>
    and \<open>dict_get d ''type'' PNone = PStr ty\<close>
    and \<open>dict_get d ''token'' PNone = PStr tok\<close>
    and \<open>dict_get d ''instance_url'' PNone = PStr url\<close>
    and \<open>(ty, prefix, h) \<in> {(''SALESFORCE'', ''sf'', url),
                            (''HUBSPOT'', ''hs'', ''https://api.hubapi.com/''),
                            (''GOOGLE_ANALYTICS'', ''ga'', url)}\<close>
    and \<open>loop_body e kc cfg k w = (Inr (), w')\<close>
  obtains plain where
    \<open>rows w' = filter (\<lambda>r. conn_id r \<noteq> prefix @ ''_'' @ py_str (dict_get d ''organization'' PNone))
                 (rows w)
               @ [\<lparr>conn_id = prefix @ ''_'' @ py_str (dict_get d ''organization'' PNone),
                   conn_type = Some ''http'', host = Some h, password = (if plain = [] then None else Some plain),
                   extra = Some ''{"auth_type": "direct"}''\<rparr>]\<close>
    and \<open>calls w' = calls w @
           [DecryptStr (password kc) tok,
            MergeConnection
              \<lparr>conn_id = prefix @ ''_'' @ py_str (dict_get d ''organization'' PNone),
               conn_type = Some ''http'', host = Some h, password = (if plain = [] then None else Some plain),
               extra = Some ''{"auth_type": "direct"}''\<rparr>]\<close>
proof (cases "fst (decrypt_str e (password kc) tok w)")
  case (Inl err)
  with loop_body_accepted [OF assms(1-6), of e kc w] assms(7) show ?thesis
    by (simp add: decrypt_str_def)
next
  case (Inr plain)
  with loop_body_accepted [OF assms(1-6), of e kc w] assms(7) that [of plain] show ?thesis
    by (auto simp: decrypt_str_def merge_connection_def Let_def split: if_splits)
qed

lemma for_loop_accepted_one_row:
  assumes \<open>for_loop e kc cfg ks w = (Inr (), w')\<close>
    and \<open>k \<in> set ks\<close>
    and \<open>map_of cfg k = Some (Dict d)\<close>
    and \<open>dict_get d ''is_enabled'' (PBool False) \<noteq> PBool False\<close>
    and \<open>dict_get d ''type'' PNone = PStr ty\<close>
    and \<open>dict_get d ''token'' PNone = PStr tok\<close>
    and \<open>dict_get d ''instance_url'' PNone = PStr url\<close>
    and \<open>(ty, prefix, h) \<in> {(''SALESFORCE'', ''sf'', url),
                            (''HUBSPOT'', ''hs'', ''https://api.hubapi.com/''),
                            (''GOOGLE_ANALYTICS'', ''ga'', url)}\<close>
  shows \<open>length (filter (\<lambda>r. conn_id r = prefix @ ''_'' @ py_str (dict_get d ''organization'' PNone))
                   (rows w')) = 1\<close>
proof -
  let ?i = \<open>prefix @ ''_'' @ py_str (dict_get d ''organization'' PNone)\<close>
  let ?P = "\<lambda>rs. length (filter (\<lambda>r. conn_id r = ?i) rs) = 1"
  from assms(2) obtain pre post where ks: "ks = pre @ k # post"
    by (auto dest: split_list)
  from assms(1) [unfolded ks] obtain w1 w2 where
    body: "loop_body e kc cfg k w1 = (Inr (), w2)"
    and post: "for_loop e kc cfg post w2 = (Inr (), w')"
    by (rule for_loop_Cons_success)
  from assms(3-8) body obtain plain where
    \<open>rows w2 = filter (\<lambda>r. conn_id r \<noteq> ?i) (rows w1)
               @ [\<lparr>conn_id = ?i, conn_type = Some ''http'', host = Some h,
                   password = (if plain = [] then None else Some plain), extra = Some ''{"auth_type": "direct"}''\<rparr>]\<close>
    by (rule loop_body_accepted_success)
  then have "?P (rows w2)"
    by (simp add: filter_empty_conv)
  have "?P (rows (snd (for_loop e kc cfg post w2)))"
  proof (rule for_loop_rows_invariant [where P = ?P])
    show "?P (filter (\<lambda>r. conn_id r \<noteq> conn_id c) rs @ [c])" if "?P rs" for c rs
      using that count_delete_insert [of ?i c rs] by (simp split: if_splits)
  qed fact
  with post show ?thesis by simp
qed

section \<open>No two rows with one conn_id\<close>

text \<open>
  C1. Runs never give the connection table two rows with the same conn_id: if the
  conn_ids of the table are distinct before a sequence of runs (each with any
  environment and operator, failed or not), they are distinct after it, since every
  upsert deletes all rows with the new row's conn_id before it inserts. And when
  \<open>execute\<close> is run twice on the same input and succeeds both times, then after the
  first run and after the second the table has exactly one row for every entry of the
  Variable that passes the checks, whatever rows it had at the start.
\<close>

theorem registry_has_no_duplicates:
  \<open>(distinct (map conn_id (rows w)) \<longrightarrow> distinct (map conn_id (rows (runs rs w))))
   \<and> (execute e self w = (Inr (), w1) \<and> execute e self w1 = (Inr (), w2)
      \<and> Variable_get e (config_variable_key self) [] = Inr cfg
      \<and> map_of cfg k = Some (Dict d)
      \<and> dict_get d ''is_enabled'' (PBool False) \<noteq> PBool False
      \<and> dict_get d ''type'' PNone = PStr ty
      \<and> dict_get d ''token'' PNone = PStr tok
      \<and> dict_get d ''instance_url'' PNone = PStr url
      \<and> (ty, prefix, h) \<in> {(''SALESFORCE'', ''sf'', url),
                             (''HUBSPOT'', ''hs'', ''https://api.hubapi.com/''),
                             (''GOOGLE_ANALYTICS'', ''ga'', url)}
      \<longrightarrow> length (filter (\<lambda>r. conn_id r = prefix @ ''_'' @ py_str (dict_get d ''organization'' PNone))
                     (rows w1)) = 1
        \<and> length (filter (\<lambda>r. conn_id r = prefix @ ''_'' @ py_str (dict_get d ''organization'' PNone))
                     (rows w2)) = 1)\<close>
proof (intro conjI impI; (elim conjE)?)
  assume "distinct (map conn_id (rows w))"
  with distinct_delete_insert show "distinct (map conn_id (rows (runs rs w)))"
    by (rule runs_rows_invariant [where P = "\<lambda>rs. distinct (map conn_id rs)"])
next
  let ?i = \<open>prefix @ ''_'' @ py_str (dict_get d ''organization'' PNone)\<close>
  assume run1: "execute e self w = (Inr (), w1)"
    and run2: "execute e self w1 = (Inr (), w2)"
    and cfg: "Variable_get e (config_variable_key self) [] = Inr cfg"
    and entry: \<open>map_of cfg k = Some (Dict d)\<close>
      \<open>dict_get d ''is_enabled'' (PBool False) \<noteq> PBool False\<close>
      \<open>dict_get d ''type'' PNone = PStr ty\<close>
      \<open>dict_get d ''token'' PNone = PStr tok\<close>
      \<open>dict_get d ''instance_url'' PNone = PStr url\<close>
      \<open>(ty, prefix, h) \<in> {(''SALESFORCE'', ''sf'', url),
                            (''HUBSPOT'', ''hs'', ''https://api.hubapi.com/''),
                            (''GOOGLE_ANALYTICS'', ''ga'', url)}\<close>
  from entry(1) have k: "k \<in> set (map fst cfg)"
    by (metis map_of_eq_None_iff option.distinct(1) set_map)
  have one: \<open>length (filter (\<lambda>r. conn_id r = ?i) (rows v')) = 1\<close>
    if "execute e self v = (Inr (), v')" for v v'
  proof -
    from that obtain kc where kc: "get_connection e (rows v) (fernet_key_conn_id self) = Inr kc"
      by (cases "get_connection e (rows v) (fernet_key_conn_id self)")
         (auto simp: execute_def)
    from that have "for_loop e kc cfg (map fst cfg)
             (v\<lparr>calls := calls v @ [GetConnection (fernet_key_conn_id self),
                                     VariableGet (config_variable_key self)]\<rparr>) = (Inr (), v')"
      by (simp add: execute_unfold [OF kc cfg])
    from this k entry show ?thesis
      by (rule for_loop_accepted_one_row)
  qed
  from one [OF run1] show \<open>length (filter (\<lambda>r. conn_id r = ?i) (rows w1)) = 1\<close> .
  from one [OF run2] show \<open>length (filter (\<lambda>r. conn_id r = ?i) (rows w2)) = 1\<close> .
qed

text \<open>
  The \<open>acme\<close> scenario run twice from a table that holds only the key: the table ends
  with the key and one \<open>sf_acme\<close> row.
\<close>

theorem registry_has_no_duplicates_witness:
  \<open>distinct (map conn_id (rows (example_world [])))
   \<and> distinct (map conn_id (rows (runs [(example_env (Some acme_salesforce), example_op),
                                        (example_env (Some acme_salesforce), example_op)]
                                   (example_world []))))
   \<and> fst (execute (example_env (Some acme_salesforce)) example_op (example_world [])) = Inr ()
   \<and> fst (execute (example_env (Some acme_salesforce)) example_op
            (snd (execute (example_env (Some acme_salesforce)) example_op (example_world []))))
       = Inr ()
   \<and> length (filter (\<lambda>r. conn_id r = ''sf_acme'')
        (rows (snd (execute (example_env (Some acme_salesforce)) example_op
           (snd (execute (example_env (Some acme_salesforce)) example_op (example_world []))))))) = 1\<close>
proof -
  let ?e = "example_env (Some acme_salesforce)"
  let ?d = "org_fields (PBool True) ''acme'' ''SALESFORCE'' (PStr ''gAAAAA_tok123'')
              ''https://acme.my.salesforce.com''"
  let ?w1 = "snd (execute ?e example_op (example_world []))"
  let ?w2 = "snd (execute ?e example_op ?w1)"
  have w1: \<open>?w1 =
      \<lparr>rows = [example_key_conn,
                 \<lparr>conn_id = ''sf_acme'', conn_type = Some ''http'',
                  host = Some ''https://acme.my.salesforce.com'', password = Some ''tok123'',
                  extra = Some ''{"auth_type": "direct"}''\<rparr>],
         faults = [],
         calls = [GetConnection (Some ''fernet_key''), VariableGet ''dag_config'',
                  DecryptStr (Some ''K'') ''gAAAAA_tok123'',
                  MergeConnection
                    \<lparr>conn_id = ''sf_acme'', conn_type = Some ''http'',
                     host = Some ''https://acme.my.salesforce.com'', password = Some ''tok123'',
                     extra = Some ''{"auth_type": "direct"}''\<rparr>]\<rparr>\<close>
    by (simp add: execute_def Variable_get_def example_world_def acme_salesforce_def
        org_fields_def loop_body_def dict_get_def enabled_types_def decrypt_str_def
        example_fernet_def merge_connection_def format_0_1_def Let_def)
  have run1: "execute ?e example_op (example_world []) = (Inr (), ?w1)"
    by (simp add: execute_def Variable_get_def example_world_def acme_salesforce_def
        org_fields_def loop_body_def dict_get_def enabled_types_def decrypt_str_def
        example_fernet_def merge_connection_def format_0_1_def Let_def)
  have run2: "execute ?e example_op ?w1 = (Inr (), ?w2)"
    unfolding w1
    by (simp add: execute_def Variable_get_def acme_salesforce_def
        org_fields_def loop_body_def dict_get_def enabled_types_def decrypt_str_def
        example_fernet_def merge_connection_def format_0_1_def Let_def)
  have h0: "distinct (map conn_id (rows (example_world [])))"
    by (simp add: example_world_def)
  have cfg: "Variable_get ?e (config_variable_key example_op) [] = Inr acme_salesforce"
    by (simp add: Variable_get_def)
  have h1: "map_of acme_salesforce ''acme'' = Some (Dict ?d)"
    by (simp add: acme_salesforce_def)
  have h2: "dict_get ?d ''is_enabled'' (PBool False) \<noteq> PBool False"
    and h3: "dict_get ?d ''type'' PNone = PStr ''SALESFORCE''"
    and h4: "dict_get ?d ''token'' PNone = PStr ''gAAAAA_tok123''"
    and h5: "dict_get ?d ''instance_url'' PNone = PStr ''https://acme.my.salesforce.com''"
    and org: "dict_get ?d ''organization'' PNone = PStr ''acme''"
    by (simp_all add: org_fields_def dict_get_def)
  have h6: \<open>(''SALESFORCE'', ''sf'', ''https://acme.my.salesforce.com'')
      \<in> {(''SALESFORCE'', ''sf'', ''https://acme.my.salesforce.com''),
          (''HUBSPOT'', ''hs'', ''https://api.hubapi.com/''),
          (''GOOGLE_ANALYTICS'', ''ga'', ''https://acme.my.salesforce.com'')}\<close>
    by simp
  note inst = registry_has_no_duplicates
    [where w = "example_world []" and rs = "[(?e, example_op), (?e, example_op)]"
       and e = ?e and self = example_op and ?w1.0 = ?w1 and ?w2.0 = ?w2
       and cfg = acme_salesforce and k = "''acme''" and d = ?d and ty = "''SALESFORCE''"
       and tok = "''gAAAAA_tok123''" and url = "''https://acme.my.salesforce.com''"
       and prefix = "''sf''" and h = "''https://acme.my.salesforce.com''"]
  from inst [THEN conjunct1, THEN mp, OF h0]
  have a: "distinct (map conn_id (rows (runs [(?e, example_op), (?e, example_op)]
                                   (example_world []))))" .
  from inst [THEN conjunct2, THEN mp, THEN conjunct2, unfolded org] run1 run2 cfg h1 h2 h3 h4 h5 h6
  have b: "length (filter (\<lambda>r. conn_id r = ''sf_acme'') (rows ?w2)) = 1"
    by simp
  from run1 have r1: "fst (execute ?e example_op (example_world [])) = Inr ()"
    by (metis fst_conv)
  from run2 have r2: "fst (execute ?e example_op ?w1) = Inr ()"
    by (metis fst_conv)
  from h0 a r1 r2 b show ?thesis
    by (intro conjI)
qed

section \<open>The calls of a run\<close>

lemma loop_body_calls:
  "\<exists>cs. calls (snd (loop_body e kc cfg k w)) = calls w @ cs \<and> (\<forall>i. GetConnection i \<notin> set cs)"
  using loop_body_shape [of e kc cfg k w]
proof (elim disjE exE conjE)
  fix tok plain c
  assume "loop_body e kc cfg k w
            = merge_connection c (w\<lparr>calls := calls w @ [DecryptStr (password kc) tok]\<rparr>)"
  then have "calls (snd (loop_body e kc cfg k w))
               = calls w @ [DecryptStr (password kc) tok, MergeConnection c]"
    by (simp add: merge_connection_def Let_def)
  then show ?thesis by simp
qed simp_all

lemma for_loop_calls:
  "\<exists>cs. calls (snd (for_loop e kc cfg ks w)) = calls w @ cs \<and> (\<forall>i. GetConnection i \<notin> set cs)"
proof (induction ks arbitrary: w)
  case Nil
  then show ?case by simp
next
  case (Cons k ks)
  obtain r w1 where body: "loop_body e kc cfg k w = (r, w1)"
    by (cases "loop_body e kc cfg k w")
  from loop_body_calls [of e kc cfg k w] body obtain cs1 where
    cs1: "calls w1 = calls w @ cs1" "\<forall>i. GetConnection i \<notin> set cs1"
    by auto
  show ?case
  proof (cases r)
    case (Inl err)
    with body cs1 show ?thesis by simp
  next
    case (Inr u)
    from Cons.IH [of w1] obtain cs2 where
      "calls (snd (for_loop e kc cfg ks w1)) = calls w1 @ cs2" "\<forall>i. GetConnection i \<notin> set cs2"
      by auto
    with cs1 have "calls (snd (for_loop e kc cfg ks w1)) = calls w @ (cs1 @ cs2)
                   \<and> (\<forall>i. GetConnection i \<notin> set (cs1 @ cs2))"
      by simp
    with body Inr show ?thesis
      by (simp only: for_loop.simps prod.case sum.case) blast
  qed
qed

lemma loop_body_no_password_rows:
  assumes "password kc = None"
  shows "rows (snd (loop_body e kc cfg k w)) = rows w"
  using loop_body_shape [of e kc cfg k w] assms
  by (auto simp: decrypt_str_def)

lemma for_loop_no_password_rows:
  assumes "password kc = None"
  shows "rows (snd (for_loop e kc cfg ks w)) = rows w"
proof (induction ks arbitrary: w)
  case Nil
  then show ?case by simp
next
  case (Cons k ks)
  from loop_body_no_password_rows [OF assms, of e cfg k w] Cons.IH [of "snd (loop_body e kc cfg k w)"]
  show ?case
    by (auto split: prod.splits sum.splits)
qed


section \<open>The key\<close>

text \<open>
  C8 (as amended). The connection holding the key is looked up exactly once, as the
  first call of the run, before the Variable is fetched and before any entry is looked
  at. When that lookup raises (the connection is not defined), \<open>execute\<close> ends with its
  exception with nothing else done: no entry is processed and the table is as it was.
  A connection that is found but has no password does not make the lookup fail; the
  run then leaves the rows of the table as they were, because every call of
  \<open>decrypt_str\<close> raises before anything is merged.
\<close>

theorem key_resolved_once_up_front:
  "(get_connection e (rows w) (fernet_key_conn_id self) = Inl err \<longrightarrow>
      execute e self w
        = (Inl err, w\<lparr>calls := calls w @ [GetConnection (fernet_key_conn_id self)]\<rparr>))
   \<and> (\<exists>cs. calls (snd (execute e self w))
               = calls w @ GetConnection (fernet_key_conn_id self) # cs
            \<and> (\<forall>i. GetConnection i \<notin> set cs))
   \<and> (get_connection e (rows w) (fernet_key_conn_id self) = Inr kc \<and> password kc = None \<longrightarrow>
      rows (snd (execute e self w)) = rows w)"
proof (intro conjI impI)
  assume "get_connection e (rows w) (fernet_key_conn_id self) = Inl err"
  then show "execute e self w
        = (Inl err, w\<lparr>calls := calls w @ [GetConnection (fernet_key_conn_id self)]\<rparr>)"
    by (simp add: execute_def)
next
  show "\<exists>cs. calls (snd (execute e self w))
               = calls w @ GetConnection (fernet_key_conn_id self) # cs
            \<and> (\<forall>i. GetConnection i \<notin> set cs)"
  proof (cases "get_connection e (rows w) (fernet_key_conn_id self)")
    case (Inl err')
    then show ?thesis by (simp add: execute_def)
  next
    case (Inr kc')
    show ?thesis
    proof (cases "Variable_get e (config_variable_key self) []")
      case (Inl err')
      with Inr show ?thesis by (simp add: execute_def)
    next
      case cfg: (Inr cfg)
      let ?w2 = "w\<lparr>calls := calls w @ [GetConnection (fernet_key_conn_id self),
                                        VariableGet (config_variable_key self)]\<rparr>"
      from for_loop_calls [of e kc' cfg "map fst cfg" ?w2] obtain cs where
        cs: "calls (snd (for_loop e kc' cfg (map fst cfg) ?w2)) = calls ?w2 @ cs"
          "\<forall>i. GetConnection i \<notin> set cs"
        by auto
      then have "calls (snd (execute e self w))
                   = calls w @ GetConnection (fernet_key_conn_id self)
                       # (VariableGet (config_variable_key self) # cs)
                 \<and> (\<forall>i. GetConnection i \<notin> set (VariableGet (config_variable_key self) # cs))"
        by (simp add: execute_unfold [OF Inr cfg])
      then show ?thesis by blast
    qed
  qed
next
  assume a: "get_connection e (rows w) (fernet_key_conn_id self) = Inr kc \<and> password kc = None"
  show "rows (snd (execute e self w)) = rows w"
  proof (cases "Variable_get e (config_variable_key self) []")
    case (Inl err')
    with a show ?thesis by (simp add: execute_def)
  next
    case cfg: (Inr cfg)
    from a have kc: "get_connection e (rows w) (fernet_key_conn_id self) = Inr kc"
      and pw: "password kc = None"
      by simp_all
    show ?thesis
      by (simp add: execute_unfold [OF kc cfg] for_loop_no_password_rows [OF pw])
  qed
qed

text \<open>
  With no \<open>fernet_key\<close> connection in the table the run ends at the lookup; with a
  \<open>fernet_key\<close> connection that has no password the \<open>acme\<close> scenario leaves the table
  as it was.
\<close>

theorem key_resolved_once_up_front_witness:
  "get_connection (example_env (Some acme_salesforce)) [] (Some ''fernet_key'')
     = Inl AirflowException
   \<and> execute (example_env (Some acme_salesforce)) example_op \<lparr>rows = [], faults = [], calls = []\<rparr>
     = (Inl AirflowException,
        \<lparr>rows = [], faults = [], calls = [GetConnection (Some ''fernet_key'')]\<rparr>)
   \<and> get_connection (example_env (Some acme_salesforce)) [key_conn_no_password]
         (Some ''fernet_key'') = Inr key_conn_no_password
   \<and> password key_conn_no_password = None
   \<and> rows (snd (execute (example_env (Some acme_salesforce)) example_op
                  \<lparr>rows = [key_conn_no_password], faults = [], calls = []\<rparr>))
     = [key_conn_no_password]"
proof -
  let ?e = "example_env (Some acme_salesforce)"
  let ?w0 = "\<lparr>rows = [], faults = [], calls = []\<rparr>"
  let ?w1 = "\<lparr>rows = [key_conn_no_password], faults = [], calls = []\<rparr>"
  have h1: "get_connection ?e (rows ?w0) (fernet_key_conn_id example_op) = Inl AirflowException"
    by (simp add: example_get_connection_def)
  have h2: "get_connection ?e (rows ?w1) (fernet_key_conn_id example_op)
              = Inr key_conn_no_password \<and> password key_conn_no_password = None"
    by (simp add: example_get_connection_def key_conn_no_password_def)
  from key_resolved_once_up_front [of ?e ?w0 example_op AirflowException, THEN conjunct1,
      THEN mp, OF h1]
  have a: "execute ?e example_op ?w0
     = (Inl AirflowException,
        \<lparr>rows = [], faults = [], calls = [GetConnection (Some ''fernet_key'')]\<rparr>)"
    by simp
  from key_resolved_once_up_front [of ?e ?w1 example_op _ key_conn_no_password,
      THEN conjunct2, THEN conjunct2, THEN mp, OF h2]
  have b: "rows (snd (execute ?e example_op ?w1)) = [key_conn_no_password]"
    by simp
  from h1 h2 a b show ?thesis
    by simp
qed

text \<open>
  The claim as stated fails for a key connection without a password: when the Variable
  does not exist the run succeeds, with no exception at all.
\<close>

theorem key_without_password_counterexample:
  "get_connection (example_env None) [key_conn_no_password] (Some ''fernet_key'')
     = Inr key_conn_no_password
   \<and> password key_conn_no_password = None
   \<and> execute (example_env None) example_op
        \<lparr>rows = [key_conn_no_password], faults = [], calls = []\<rparr>
     = (Inr (),
        \<lparr>rows = [key_conn_no_password], faults = [],
         calls = [GetConnection (Some ''fernet_key''), VariableGet ''dag_config'']\<rparr>)"
  by (simp add: example_defs run_defs key_conn_no_password_def Let_def)

section \<open>The encryption flag\<close>



end
